theory Spec2Isabelle
  imports Complex_Main
begin

section \<open>Ecosystem visualisation: the data model\<close>

text \<open>
  The program is \<^verbatim>\<open>visualize_ecosystem.py\<close>. It reads a CSV file into a pandas
  DataFrame, prints a report and saves two charts. The embedding keeps the DataFrame as
  the list of its columns in file order; a column is its name and its cells, top row
  first. Cells are integers (the input format has integer counts), held by pandas as
  64-bit signed integers. Where pandas computes in 64 bits the model wraps the result
  (\<open>wrap64\<close>), and where it computes in binary64 the model rounds it (\<open>b64\<close>).
\<close>

record table =
  nrows :: nat
  cols :: "(string \<times> int list) list"

text \<open>
  What \<^verbatim>\<open>pd.read_csv\<close> guarantees of the table it returns: column names are
  pairwise different (repeated header names are renamed), and every column has one cell
  per row.
\<close>

definition loaded :: "table \<Rightarrow> bool" where
  "loaded data \<longleftrightarrow>
     distinct (map fst (cols data)) \<and> list_all (\<lambda>c. length (snd c) = nrows data) (cols data)"

datatype py_error = KeyError string | IndexError | ParserError

datatype 'a outcome = Returned 'a | Raised py_error | SystemExit int

text \<open>\<^verbatim>\<open>data.columns\<close>, \<^verbatim>\<open>len(data)\<close> and \<^verbatim>\<open>data[key]\<close>.\<close>

definition columns :: "table \<Rightarrow> string list" where
  "columns data = map fst (cols data)"

definition getitem :: "table \<Rightarrow> string \<Rightarrow> py_error + int list" where
  "getitem data key =
     (case map_of (cols data) key of None \<Rightarrow> Inl (KeyError key) | Some cells \<Rightarrow> Inr cells)"

text \<open>
  Positional indexing \<^verbatim>\<open>.iloc[i]\<close>: a negative position counts from the end, a
  position outside the rows raises.
\<close>

definition position :: "nat \<Rightarrow> int \<Rightarrow> nat option" where
  "position n i =
     (if 0 \<le> i \<and> i < int n then Some (nat i)
      else if i < 0 \<and> - int n \<le> i then Some (nat (int n + i))
      else None)"

definition iloc :: "int list \<Rightarrow> int \<Rightarrow> py_error + int" where
  "iloc cells i =
     (case position (length cells) i of None \<Rightarrow> Inl IndexError | Some k \<Rightarrow> Inr (cells ! k))"

text \<open>\<^verbatim>\<open>data.iloc[i]\<close> on the frame is the row at that position, one cell per column.\<close>

definition iloc_row :: "table \<Rightarrow> int \<Rightarrow> py_error + int list" where
  "iloc_row data i =
     (case position (nrows data) i of
        None \<Rightarrow> Inl IndexError
      | Some k \<Rightarrow> Inr (map (\<lambda>c. snd c ! k) (cols data)))"

section \<open>Floating point values and their formatting\<close>

text \<open>
  A binary64 value is kept as the rational number it stands for. \<open>b64\<close> rounds a
  rational to the nearest number with a 53-bit significand, ties to the even significand,
  as an IEEE-754 operation rounds its exact result (within the normal exponent range,
  where every mean of integer cells lies).
\<close>

fun bit_length :: "nat \<Rightarrow> nat" where
  "bit_length n = (if n = 0 then 0 else Suc (bit_length (n div 2)))"

declare bit_length.simps [simp del]

definition pow2 :: "int \<Rightarrow> rat" where
  "pow2 e = (if 0 \<le> e then 2 ^ nat e else 1 / 2 ^ nat (- e))"

definition round_half_even :: "rat \<Rightarrow> int" where
  "round_half_even x =
     (let f = \<lfloor>x\<rfloor>; d = x - of_int f
      in if d < 1 / 2 then f else if 1 / 2 < d then f + 1 else if even f then f else f + 1)"

text \<open>The exponent \<open>e\<close> with \<open>2^e \<le> x < 2^(e+1)\<close>, for a positive \<open>x\<close>.\<close>

definition exponent :: "rat \<Rightarrow> int" where
  "exponent x =
     (let (a, b) = quotient_of x;
          d = int (bit_length (nat a)) - int (bit_length (nat b))
      in if pow2 d \<le> x then d else d - 1)"

definition b64 :: "rat \<Rightarrow> rat" where
  "b64 x =
     (if x = 0 then 0
      else let s = 52 - exponent \<bar>x\<bar>;
               m = round_half_even (\<bar>x\<bar> * pow2 s)
           in sgn x * of_int m * pow2 (- s))"

text \<open>Decimal digits of a natural number, and \<^verbatim>\<open>str\<close> of an integer.\<close>

fun digits :: "nat \<Rightarrow> string" where
  "digits n = (if n < 10 then [char_of (48 + n)] else digits (n div 10) @ [char_of (48 + n mod 10)])"

declare digits.simps [simp del]

definition str_int :: "int \<Rightarrow> string" where
  "str_int i = (if i < 0 then CHR ''-'' # digits (nat (- i)) else digits (nat i))"

text \<open>
  The presentation type \<^verbatim>\<open>f\<close> with a precision: the exact value of the float is
  rounded to that many decimals, ties to even; a negative value keeps its sign even when
  it rounds to zero. \<open>None\<close> is the float \<^verbatim>\<open>nan\<close>.
\<close>

definition fmt_f :: "nat \<Rightarrow> rat option \<Rightarrow> string" where
  "fmt_f prec v =
     (case v of
        None \<Rightarrow> ''nan''
      | Some x \<Rightarrow>
          (let t = nat (round_half_even (\<bar>x\<bar> * 10 ^ prec));
               frac = digits (t mod 10 ^ prec)
           in (if x < 0 then ''-'' else '''') @ digits (t div 10 ^ prec) @
              (if prec = 0 then ''''
               else CHR ''.'' # replicate (prec - length frac) CHR ''0'' @ frac)))"

text \<open>An integer formatted with \<^verbatim>\<open>f\<close> is converted to a float first.\<close>

definition fmt_f_int :: "nat \<Rightarrow> int \<Rightarrow> string" where
  "fmt_f_int prec i = fmt_f prec (Some (b64 (of_int i)))"

text \<open>The alignment \<^verbatim>\<open><n\<close>: pad with spaces on the right up to the width.\<close>

definition ljust :: "nat \<Rightarrow> string \<Rightarrow> string" where
  "ljust width s = s @ replicate (width - length s) CHR '' ''"

definition fmt_opt_int :: "int option \<Rightarrow> string" where
  "fmt_opt_int v = (case v of None \<Rightarrow> ''nan'' | Some i \<Rightarrow> str_int i)"

section \<open>Series reductions\<close>

text \<open>
  \<^verbatim>\<open>.mean()\<close>, \<^verbatim>\<open>.max()\<close> and \<^verbatim>\<open>.min()\<close> of a column. On a column
  without cells all three are \<^verbatim>\<open>nan\<close> (\<open>None\<close>).

  The mean of an integer column is computed in binary64: every cell is converted to a
  float, the floats are added up with a rounding after each addition, and the sum is
  divided by the count as a float. The model adds the cells in sequence; the library may
  add long columns in another order, and every order gives the same sum as long as the
  magnitudes of the cells add up to less than \<open>2^53\<close>.

  \<^verbatim>\<open>.sum()\<close> of a row of 64-bit integers and the subtraction of two such integers
  wrap around at 64 bits.
\<close>

definition wrap64 :: "int \<Rightarrow> int" where
  "wrap64 i = (i + 2 ^ 63) mod 2 ^ 64 - 2 ^ 63"

definition to_float :: "int \<Rightarrow> rat" where
  "to_float i = b64 (of_int i)"

definition float_sum :: "int list \<Rightarrow> rat" where
  "float_sum cells = foldl (\<lambda>acc c. b64 (acc + to_float c)) 0 cells"

definition series_mean :: "int list \<Rightarrow> rat option" where
  "series_mean cells =
     (if cells = [] then None
      else Some (b64 (float_sum cells / to_float (int (length cells)))))"

definition series_max :: "int list \<Rightarrow> int option" where
  "series_max cells = (case cells of [] \<Rightarrow> None | c # cs \<Rightarrow> Some (fold max cs c))"

definition series_min :: "int list \<Rightarrow> int option" where
  "series_min cells = (case cells of [] \<Rightarrow> None | c # cs \<Rightarrow> Some (fold min cs c))"

section \<open>The process state\<close>

text \<open>
  A line series as \<^verbatim>\<open>plot(x, y, label=..., linewidth=...)\<close> draws it, a set of axes
  with what the program sets on it, and a figure as its axes in creation order. The
  legend of a set of axes is \<open>None\<close> until \<^verbatim>\<open>legend\<close> is called; the call builds the
  entries from the lines the axes hold at that moment, one entry per label, leaving out
  the lines whose label is empty or starts with an underscore.
\<close>

record series =
  xdata :: "int list"
  ydata :: "int list"
  label :: string
  linewidth :: nat

record axes =
  lines :: "series list"
  title :: string
  xlabel :: string
  ylabel :: string
  legend :: "string list option"
  grid :: bool

type_synonym figure = "axes list"

datatype content = Text string | Image figure

text \<open>
  The state the program runs in: the files of the working directory, what was printed
  (one entry per \<^verbatim>\<open>print\<close> call), the open figures of \<^verbatim>\<open>pyplot\<close> (the
  current figure last) and the reading \<^verbatim>\<open>time.time()\<close> gives.
\<close>

record world =
  files :: "string \<rightharpoonup> content"
  stdout :: "string list"
  figures :: "figure list"
  clock :: rat

definition print :: "string \<Rightarrow> world \<Rightarrow> world" where
  "print s w = w\<lparr>stdout := stdout w @ [s]\<rparr>"

subsection \<open>pyplot\<close>

definition new_axes :: axes where
  "new_axes = \<lparr>lines = [], title = [], xlabel = [], ylabel = [], legend = None, grid = False\<rparr>"

fun map_last :: "('a \<Rightarrow> 'a) \<Rightarrow> 'a list \<Rightarrow> 'a list" where
  "map_last f [] = []"
| "map_last f [x] = [f x]"
| "map_last f (x # y # ys) = x # map_last f (y # ys)"

definition plt_close_all :: "world \<Rightarrow> world" where
  "plt_close_all w = w\<lparr>figures := []\<rparr>"

definition plt_figure :: "world \<Rightarrow> world" where
  "plt_figure w = w\<lparr>figures := figures w @ [[]]\<rparr>"

definition plt_subplots :: "nat \<Rightarrow> world \<Rightarrow> world" where
  "plt_subplots n w = w\<lparr>figures := figures w @ [replicate n new_axes]\<rparr>"

text \<open>
  The implicit interface works on the current figure and its current axes, and creates
  them when there are none.
\<close>

definition gcf :: "world \<Rightarrow> world" where
  "gcf w = (if figures w = [] then plt_figure w else w)"

definition on_gca :: "(axes \<Rightarrow> axes) \<Rightarrow> world \<Rightarrow> world" where
  "on_gca f w =
     (gcf w)\<lparr>figures :=
        map_last (\<lambda>fig. if fig = [] then [f new_axes] else map_last f fig) (figures (gcf w))\<rparr>"

text \<open>A method call on \<^verbatim>\<open>axes[k]\<close> of the figure \<^verbatim>\<open>subplots\<close> made.\<close>

definition on_axes :: "nat \<Rightarrow> (axes \<Rightarrow> axes) \<Rightarrow> world \<Rightarrow> world" where
  "on_axes k f w =
     w\<lparr>figures :=
        map_last (\<lambda>fig. if k < length fig then fig[k := f (fig ! k)] else fig) (figures w)\<rparr>"

definition add_line :: "int list \<Rightarrow> int list \<Rightarrow> string \<Rightarrow> nat \<Rightarrow> axes \<Rightarrow> axes" where
  "add_line xs ys lbl lw ax =
     ax\<lparr>lines := lines ax @ [\<lparr>xdata = xs, ydata = ys, label = lbl, linewidth = lw\<rparr>]\<rparr>"

definition legend_labels :: "series list \<Rightarrow> string list" where
  "legend_labels ls = filter (\<lambda>l. l \<noteq> [] \<and> hd l \<noteq> CHR ''_'') (map label ls)"

definition call_legend :: "axes \<Rightarrow> axes" where
  "call_legend ax = ax\<lparr>legend := Some (legend_labels (lines ax))\<rparr>"

definition current_figure :: "world \<Rightarrow> figure" where
  "current_figure w = (if figures w = [] then [] else last (figures w))"

definition plt_savefig :: "string \<Rightarrow> world \<Rightarrow> world" where
  "plt_savefig output w = (gcf w)\<lparr>files := (files w)(output \<mapsto> Image (current_figure w))\<rparr>"

definition plt_close :: "world \<Rightarrow> world" where
  "plt_close w = w\<lparr>figures := butlast (figures w)\<rparr>"

section \<open>The program\<close>

text \<open>
  A function that is passed the DataFrame returns how it ended, the DataFrame as the call
  left it, and the process state as the call left it. \<open>and_then\<close> runs the next
  statement when the one before returned and passes an exception on otherwise.
\<close>

type_synonym effect = "unit outcome \<times> table \<times> world"

definition and_then :: "effect \<Rightarrow> (table \<Rightarrow> world \<Rightarrow> effect) \<Rightarrow> effect" where
  "and_then r k = (case r of (Returned u, data, w) \<Rightarrow> k data w | _ \<Rightarrow> r)"

definition bind_err :: "py_error + 'a \<Rightarrow> ('a \<Rightarrow> py_error + 'b) \<Rightarrow> py_error + 'b" where
  "bind_err r k = (case r of Inl e \<Rightarrow> Inl e | Inr x \<Rightarrow> k x)"

subsection \<open>\<^verbatim>\<open>load_data\<close>\<close>

text \<open>
  \<^verbatim>\<open>pd.read_csv\<close> is a parameter: the parser is not part of the program. It is given
  the content of the file and returns the table or raises.
\<close>

definition load_data ::
  "(content \<Rightarrow> py_error + table) \<Rightarrow> string \<Rightarrow> world \<Rightarrow> table outcome \<times> world" where
  "load_data read_csv filename w =
     (case files w filename of
        None \<Rightarrow> (SystemExit 1, print (''Error: '' @ filename @ '' not found'') w)
      | Some c \<Rightarrow>
          (case read_csv c of
             Inl e \<Rightarrow> (Raised e, w)
           | Inr data \<Rightarrow>
               (Returned data,
                print (''Loaded '' @ str_int (int (nrows data)) @ '' timesteps with '' @
                       str_int (int (length (columns data)) - 1) @ '' species'') w)))"

subsection \<open>\<^verbatim>\<open>plot_all_populations\<close>\<close>

fun plot_all_loop :: "table \<Rightarrow> string list \<Rightarrow> world \<Rightarrow> effect" where
  "plot_all_loop data [] w = (Returned (), data, w)"
| "plot_all_loop data (column # rest) w =
     (if column \<noteq> ''TimeStep'' then
        (case getitem data ''TimeStep'' of
           Inl e \<Rightarrow> (Raised e, data, w)
         | Inr xs \<Rightarrow>
             (case getitem data column of
                Inl e \<Rightarrow> (Raised e, data, w)
              | Inr ys \<Rightarrow> plot_all_loop data rest (on_gca (add_line xs ys column 2) w)))
      else plot_all_loop data rest w)"

definition plot_all_populations :: "table \<Rightarrow> string \<Rightarrow> world \<Rightarrow> effect" where
  "plot_all_populations data output w =
     and_then (plot_all_loop data (columns data) (plt_figure (plt_close_all w)))
       (\<lambda>data w.
          (Returned (), data,
           print (''Saved: '' @ output)
             (plt_close
               (plt_savefig output
                 (on_gca (\<lambda>ax. ax\<lparr>grid := True\<rparr>)
                   (on_gca call_legend
                     (on_gca (\<lambda>ax. ax\<lparr>ylabel := ''Population Count''\<rparr>)
                       (on_gca (\<lambda>ax. ax\<lparr>xlabel := ''Time Step''\<rparr>)
                         (on_gca
                           (\<lambda>ax. ax\<lparr>title := ''Ecosystem Population Dynamics (All Species)''\<rparr>)
                           w)))))))))"

subsection \<open>\<^verbatim>\<open>plot_trophic_levels\<close>\<close>

definition producers :: "string list" where
  "producers = [''Wildflowers'', ''Berries'', ''Aspen'', ''Spruce'']"

definition herbivores :: "string list" where
  "herbivores = [''Deer'', ''Bunny'', ''FieldMouse'', ''GroundSquirrel'', ''Chipmunk'']"

definition predators :: "string list" where
  "predators = [''Fox'', ''Coyote'', ''BlackBear'']"

text \<open>One of the three loops: the members of a group that the table has, on \<^verbatim>\<open>axes[k]\<close>.\<close>

fun plot_group :: "nat \<Rightarrow> string list \<Rightarrow> table \<Rightarrow> world \<Rightarrow> effect" where
  "plot_group k [] data w = (Returned (), data, w)"
| "plot_group k (name # rest) data w =
     (if name \<in> set (columns data) then
        (case getitem data ''TimeStep'' of
           Inl e \<Rightarrow> (Raised e, data, w)
         | Inr xs \<Rightarrow>
             (case getitem data name of
                Inl e \<Rightarrow> (Raised e, data, w)
              | Inr ys \<Rightarrow> plot_group k rest data (on_axes k (add_line xs ys name 2) w)))
      else plot_group k rest data w)"

definition decorate :: "nat \<Rightarrow> string \<Rightarrow> string option \<Rightarrow> world \<Rightarrow> world" where
  "decorate k heading xl w =
     on_axes k (\<lambda>ax. ax\<lparr>grid := True\<rparr>)
       (on_axes k call_legend
         (on_axes k (\<lambda>ax. ax\<lparr>ylabel := ''Population''\<rparr>)
           ((case xl of None \<Rightarrow> (\<lambda>w. w) | Some s \<Rightarrow> on_axes k (\<lambda>ax. ax\<lparr>xlabel := s\<rparr>))
             (on_axes k (\<lambda>ax. ax\<lparr>title := heading\<rparr>) w))))"

definition plot_trophic_levels :: "table \<Rightarrow> string \<Rightarrow> world \<Rightarrow> effect" where
  "plot_trophic_levels data output w =
     and_then (plot_group 0 producers data (plt_subplots 3 (plt_close_all w)))
       (\<lambda>data w.
          and_then (plot_group 1 herbivores data (decorate 0 ''Producers (Plants)'' None w))
            (\<lambda>data w.
               and_then
                 (plot_group 2 predators data
                   (decorate 1 ''Primary Consumers (Herbivores)'' None w))
                 (\<lambda>data w.
                    (Returned (), data,
                     print (''Saved: '' @ output)
                       (plt_close
                         (plt_savefig output
                           (decorate 2 ''Predators (Carnivores & Omnivores)''
                              (Some ''Time Step'') w)))))))"

subsection \<open>\<^verbatim>\<open>print_statistics\<close>\<close>

text \<open>The six values of a report line, and the line the format string makes of them.\<close>

record species_line =
  species :: string
  initial :: int
  final :: int
  mean :: "rat option"
  maximum :: "int option"
  minimum :: "int option"

definition render_line :: "species_line \<Rightarrow> string" where
  "render_line l =
     ljust 20 (species l) @ '' '' @ ljust 10 (str_int (initial l)) @ '' '' @
     ljust 10 (str_int (final l)) @ '' '' @ ljust 10 (fmt_f 1 (mean l)) @ '' '' @
     ljust 10 (fmt_opt_int (maximum l)) @ '' '' @ ljust 10 (fmt_opt_int (minimum l))"

definition column_stats :: "table \<Rightarrow> string \<Rightarrow> py_error + species_line" where
  "column_stats data column =
     bind_err (getitem data column) (\<lambda>s0. bind_err (iloc s0 0) (\<lambda>initial.
     bind_err (getitem data column) (\<lambda>s1. bind_err (iloc s1 (- 1)) (\<lambda>final.
     bind_err (getitem data column) (\<lambda>s2.
     bind_err (getitem data column) (\<lambda>s3.
     bind_err (getitem data column) (\<lambda>s4.
       Inr \<lparr>species = column, initial = initial, final = final, mean = series_mean s2,
            maximum = series_max s3, minimum = series_min s4\<rparr>)))))))"

fun stats_loop :: "table \<Rightarrow> string list \<Rightarrow> world \<Rightarrow> effect" where
  "stats_loop data [] w = (Returned (), data, w)"
| "stats_loop data (column # rest) w =
     (if column \<noteq> ''TimeStep'' then
        (case column_stats data column of
           Inl e \<Rightarrow> (Raised e, data, w)
         | Inr l \<Rightarrow> stats_loop data rest (print (render_line l) w))
      else stats_loop data rest w)"

text \<open>\<^verbatim>\<open>data.iloc[i].sum() - data['TimeStep'].iloc[i]\<close>\<close>

definition total_population :: "table \<Rightarrow> int \<Rightarrow> py_error + int" where
  "total_population data i =
     bind_err (iloc_row data i) (\<lambda>row.
     bind_err (getitem data ''TimeStep'') (\<lambda>ts.
     bind_err (iloc ts i) (\<lambda>t. Inr (wrap64 (wrap64 (sum_list row) - t)))))"

definition rule :: "nat \<Rightarrow> char \<Rightarrow> string" where
  "rule n c = replicate n c"

definition newline :: char where
  "newline = CHR 0x0A"

definition heading :: "string list" where
  "heading =
     [newline # rule 80 CHR ''='',
      ''ECOSYSTEM STATISTICS SUMMARY'',
      rule 80 CHR ''='',
      newline # ljust 20 ''Species'' @ '' '' @ ljust 10 ''Initial'' @ '' '' @
        ljust 10 ''Final'' @ '' '' @ ljust 10 ''Mean'' @ '' '' @ ljust 10 ''Max'' @ '' '' @
        ljust 10 ''Min'',
      rule 80 CHR ''-'']"

definition print_all :: "string list \<Rightarrow> world \<Rightarrow> world" where
  "print_all ss w = fold print ss w"

definition print_total :: "string \<Rightarrow> int \<Rightarrow> table \<Rightarrow> world \<Rightarrow> effect" where
  "print_total caption i data w =
     (case total_population data i of
        Inl e \<Rightarrow> (Raised e, data, w)
      | Inr n \<Rightarrow> (Returned (), data, print (caption @ fmt_f_int 0 n) w))"

definition print_statistics :: "table \<Rightarrow> world \<Rightarrow> effect" where
  "print_statistics data w =
     and_then (stats_loop data (columns data) (print_all heading w))
       (\<lambda>data w.
          and_then
            (print_total ''Initial total population: '' 0 data
               (print (''Total timesteps: '' @ str_int (int (nrows data)))
                  (print (newline # rule 80 CHR ''='') w)))
            (\<lambda>data w.
               and_then (print_total ''Final total population: '' (- 1) data w)
                 (\<lambda>data w. (Returned (), data, print (rule 80 CHR ''='' @ [newline]) w))))"

subsection \<open>\<^verbatim>\<open>main\<close>\<close>

text \<open>\<^verbatim>\<open>int(x)\<close> of a float drops the fraction.\<close>

definition py_int :: "rat \<Rightarrow> int" where
  "py_int x = (if 0 \<le> x then \<lfloor>x\<rfloor> else \<lceil>x\<rceil>)"

definition lift_effect :: "effect \<Rightarrow> unit outcome \<times> world" where
  "lift_effect r = (case r of (out, data, w) \<Rightarrow> (out, w))"

definition main :: "(content \<Rightarrow> py_error + table) \<Rightarrow> world \<Rightarrow> unit outcome \<times> world" where
  "main read_csv w =
     (case load_data read_csv ''ecosystem_data.csv''
             (print (rule 50 CHR ''='') (print ''Ecosystem Data Visualization Tool'' w)) of
        (Raised e, w) \<Rightarrow> (Raised e, w)
      | (SystemExit n, w) \<Rightarrow> (SystemExit n, w)
      | (Returned data, w) \<Rightarrow>
          lift_effect
            (and_then (print_statistics data w)
               (\<lambda>data w.
                  let timestamp = py_int (clock w) in
                  and_then
                    (plot_all_populations data
                       (''population_dynamics_'' @ str_int timestamp @ ''.png'')
                       (print ''Generating visualizations...'' w))
                    (\<lambda>data w.
                       and_then
                         (plot_trophic_levels data
                            (''trophic_levels_'' @ str_int timestamp @ ''.png'') w)
                         (\<lambda>data w.
                            (Returned (), data,
                             print ''Check the generated PNG files for plots.''
                               (print (newline # ''Visualization complete!'') w)))))))"

section \<open>What the claims are stated with\<close>

text \<open>
  The species columns of a table are its columns other than the one named
  \<^verbatim>\<open>TimeStep\<close>, in table order. \<open>summary\<close> is the report line the specification
  asks for a column: first and last cell, the float mean of all cells, the largest and
  the smallest cell.
\<close>

definition species_columns :: "table \<Rightarrow> (string \<times> int list) list" where
  "species_columns data = filter (\<lambda>c. fst c \<noteq> ''TimeStep'') (cols data)"

definition summary :: "string \<times> int list \<Rightarrow> species_line" where
  "summary c =
     \<lparr>species = fst c, initial = hd (snd c), final = last (snd c),
      mean = series_mean (snd c),
      maximum = Some (Max (set (snd c))), minimum = Some (Min (set (snd c)))\<rparr>"

definition has_time :: "table \<Rightarrow> bool" where
  "has_time data \<longleftrightarrow> ''TimeStep'' \<in> set (columns data)"

definition cells :: "table \<Rightarrow> string \<Rightarrow> int list" where
  "cells data name = (case map_of (cols data) name of None \<Rightarrow> [] | Some cs \<Rightarrow> cs)"

definition line_of :: "table \<Rightarrow> string \<Rightarrow> series" where
  "line_of data name =
     \<lparr>xdata = cells data ''TimeStep'', ydata = cells data name, label = name, linewidth = 2\<rparr>"

subsection \<open>Tables and states the theorems are tried on\<close>

text \<open>
  The table of the specification's example (the columns \<^verbatim>\<open>TimeStep, Deer, Wildflowers,
  Fox, UnknownCritter\<close> over five rows), a table without rows, a table whose time column
  is spelt \<^verbatim>\<open>timestep\<close>, a table whose producers stand in another order than in the
  program's list, a table with a cell of \<open>2^53 + 1\<close>, a table whose first row adds up to
  \<open>2^63\<close>, a table with a column whose name starts with an underscore, and a working
  directory that holds the input file.
\<close>

definition example_table :: table where
  "example_table =
     \<lparr>nrows = 5,
      cols = [(''TimeStep'', [0, 1, 2, 3, 4]), (''Deer'', [10, 12, 9, 7, 11]),
              (''Wildflowers'', [100, 90, 95, 80, 85]), (''Fox'', [2, 3, 3, 4, 2]),
              (''UnknownCritter'', [1, 0, 0, 0, 6])]\<rparr>"

definition empty_table :: table where
  "empty_table = \<lparr>nrows = 0, cols = [(''TimeStep'', []), (''Deer'', [])]\<rparr>"

definition misspelt_table :: table where
  "misspelt_table = \<lparr>nrows = 2, cols = [(''timestep'', [0, 1]), (''Deer'', [10, 12])]\<rparr>"

definition shuffled_table :: table where
  "shuffled_table =
     \<lparr>nrows = 2,
      cols = [(''TimeStep'', [0, 1]), (''Spruce'', [7, 8]), (''Wildflowers'', [100, 90])]\<rparr>"

definition huge_table :: table where
  "huge_table =
     \<lparr>nrows = 1, cols = [(''TimeStep'', [0]), (''Deer'', [9007199254740993])]\<rparr>"

definition wrapping_table :: table where
  "wrapping_table =
     \<lparr>nrows = 1,
      cols = [(''TimeStep'', [0]), (''Deer'', [4611686018427387904]),
              (''Fox'', [4611686018427387904])]\<rparr>"

definition underscore_table :: table where
  "underscore_table =
     \<lparr>nrows = 2, cols = [(''TimeStep'', [0, 1]), (''_Deer'', [10, 12]), (''Fox'', [2, 3])]\<rparr>"

definition example_world :: world where
  "example_world =
     \<lparr>files = [''ecosystem_data.csv'' \<mapsto> Text ''TimeStep,Deer''], stdout = [], figures = [],
      clock = 3400000001 / 2\<rparr>"

text \<open>The labels of the series of a saved chart, panel by panel, in drawing order.\<close>

definition chart_labels :: "world \<Rightarrow> string \<Rightarrow> string list list" where
  "chart_labels w path =
     (case files w path of
        Some (Image fig) \<Rightarrow> map (\<lambda>ax. map label (lines ax)) fig
      | _ \<Rightarrow> [])"

text \<open>
  A step touches only the files named in \<open>S\<close> when it leaves the clock reading and every
  other file as they were.
\<close>

definition touches_only :: "string set \<Rightarrow> world \<Rightarrow> world \<Rightarrow> bool" where
  "touches_only S w w' \<longleftrightarrow> clock w' = clock w \<and> (\<forall>p. p \<notin> S \<longrightarrow> files w' p = files w p)"

text \<open>The legends of a saved chart, panel by panel.\<close>

definition chart_legends :: "world \<Rightarrow> string \<Rightarrow> string list option list" where
  "chart_legends w path =
     (case files w path of
        Some (Image fig) \<Rightarrow> map legend fig
      | _ \<Rightarrow> [])"

text \<open>
  The cells of a table that pandas holds as 64-bit signed integers, which is how it holds
  a file of integer counts.
\<close>

definition int64_cells :: "table \<Rightarrow> bool" where
  "int64_cells data \<longleftrightarrow>
     list_all (\<lambda>c. list_all (\<lambda>x. - (2 ^ 63) \<le> x \<and> x < 2 ^ 63) (snd c)) (cols data)"

text \<open>
  Reading a printed number back: the value of a string of decimal digits, of an integer
  with an optional minus sign, and of a decimal with a point.
\<close>

definition read_nat :: "string \<Rightarrow> nat" where
  "read_nat s = foldl (\<lambda>a c. 10 * a + (of_char c - 48)) 0 s"

definition read_int :: "string \<Rightarrow> int" where
  "read_int s =
     (case s of
        [] \<Rightarrow> 0
      | c # ds \<Rightarrow> if c = CHR ''-'' then - int (read_nat ds) else int (read_nat s))"

definition read_decimal :: "string \<Rightarrow> rat" where
  "read_decimal s =
     (let neg = (s \<noteq> [] \<and> hd s = CHR ''-'');
          body = (if neg then tl s else s);
          whole = takeWhile (\<lambda>c. c \<noteq> CHR ''.'') body;
          frac = drop 1 (dropWhile (\<lambda>c. c \<noteq> CHR ''.'') body);
          v = of_nat (read_nat whole) + of_nat (read_nat frac) / 10 ^ length frac
      in if neg then - v else v)"

section \<open>Basic facts about the table and the report loop\<close>

lemma getitem_present:
  "distinct (map fst (cols t)) \<Longrightarrow> (n, vs) \<in> set (cols t) \<Longrightarrow> getitem t n = Inr vs"
  by (simp add: getitem_def)

lemma getitem_absent: "n \<notin> set (columns t) \<Longrightarrow> getitem t n = Inl (KeyError n)"
  using map_of_eq_None_iff [of "cols t" n] by (simp add: getitem_def columns_def)

lemma iloc_first: "vs \<noteq> [] \<Longrightarrow> iloc vs 0 = Inr (hd vs)"
  by (simp add: iloc_def position_def hd_conv_nth)

lemma iloc_last: "vs \<noteq> [] \<Longrightarrow> iloc vs (- 1) = Inr (last vs)"
  by (cases vs rule: rev_cases) (simp_all add: iloc_def position_def nth_append)

lemma iloc_empty: "iloc [] i = Inl IndexError"
  by (simp add: iloc_def position_def)

lemma series_max_Max: "vs \<noteq> [] \<Longrightarrow> series_max vs = Some (Max (set vs))"
  by (cases vs) (simp_all add: series_max_def Max.set_eq_fold [symmetric])

lemma series_min_Min: "vs \<noteq> [] \<Longrightarrow> series_min vs = Some (Min (set vs))"
  by (cases vs) (simp_all add: series_min_def Min.set_eq_fold [symmetric])

lemma column_stats_rows:
  assumes "distinct (map fst (cols t))" "(n, vs) \<in> set (cols t)" "vs \<noteq> []"
  shows "column_stats t n =
           Inr \<lparr>species = n, initial = hd vs, final = last vs,
                mean = series_mean vs,
                maximum = Some (Max (set vs)), minimum = Some (Min (set vs))\<rparr>"
  using assms
  by (simp add: column_stats_def bind_err_def getitem_present iloc_first iloc_last
      series_max_Max series_min_Min)

lemma column_stats_no_rows:
  assumes "distinct (map fst (cols t))" "(n, []) \<in> set (cols t)"
  shows "column_stats t n = Inl IndexError"
  using assms by (simp add: column_stats_def bind_err_def getitem_present iloc_empty)

lemma print_all_append: "print_all (xs @ ys) w = print_all ys (print_all xs w)"
  by (simp add: print_all_def)

lemma print_all_Cons: "print_all (x # xs) w = print_all xs (print x w)"
  by (simp add: print_all_def)

lemma print_all_Nil: "print_all [] w = w"
  by (simp add: print_all_def)

lemma stdout_print_all: "stdout (print_all xs w) = stdout w @ xs"
  by (induction xs arbitrary: w) (simp_all add: print_all_def print_def)

lemma print_all_world: "print_all xs w = w\<lparr>stdout := stdout w @ xs\<rparr>"
  by (induction xs arbitrary: w) (simp_all add: print_all_def print_def)

lemma column_stats_summary:
  assumes "distinct (map fst (cols t))" "c \<in> set (cols t)" "snd c \<noteq> []"
  shows "column_stats t (fst c) = Inr (summary c)"
  using column_stats_rows [of t "fst c" "snd c"] assms by (simp add: summary_def)

lemma stats_loop_rows:
  assumes "distinct (map fst (cols t))" "set cs \<subseteq> set (cols t)" "\<forall>c\<in>set cs. snd c \<noteq> []"
  shows "stats_loop t (map fst cs) w =
           (Returned (), t,
            print_all (map (\<lambda>c. render_line (summary c)) (filter (\<lambda>c. fst c \<noteq> ''TimeStep'') cs)) w)"
  using assms
proof (induction cs arbitrary: w)
  case Nil
  show ?case by (simp add: print_all_Nil)
next
  case (Cons c cs)
  have st: "column_stats t (fst c) = Inr (summary c)"
    using Cons.prems by (intro column_stats_summary) auto
  have ih: "stats_loop t (map fst cs) w' =
           (Returned (), t,
            print_all (map (\<lambda>c. render_line (summary c)) (filter (\<lambda>c. fst c \<noteq> ''TimeStep'') cs)) w')" for w'
    using Cons.prems by (intro Cons.IH) auto
  show ?case by (simp add: st ih print_all_Cons)
qed

lemma stats_loop_no_rows:
  assumes "distinct (map fst (cols t))" "set cs \<subseteq> set (cols t)" "\<forall>c\<in>set cs. snd c = []"
    and "\<exists>c\<in>set cs. fst c \<noteq> ''TimeStep''"
  shows "stats_loop t (map fst cs) w = (Raised IndexError, t, w)"
  using assms
proof (induction cs)
  case Nil
  then show ?case by simp
next
  case (Cons c cs)
  show ?case
  proof (cases "fst c = ''TimeStep''")
    case True
    with Cons.prems have "\<exists>c\<in>set cs. fst c \<noteq> ''TimeStep''" by auto
    with Cons.prems Cons.IH True show ?thesis by simp
  next
    case False
    have "(fst c, []) \<in> set (cols t)"
      using Cons.prems(2,3) by (metis list.set_intros(1) prod.collapse subsetD)
    then have "column_stats t (fst c) = Inl IndexError"
      using Cons.prems(1) by (rule column_stats_no_rows [rotated])
    with False show ?thesis by simp
  qed
qed

lemma sum_without_key:
  fixes f :: "'k \<times> 'v \<Rightarrow> int"
  shows "distinct (map fst cs) \<Longrightarrow> map_of cs k = Some v \<Longrightarrow>
     sum_list (map f cs) - f (k, v) = sum_list (map f (filter (\<lambda>c. fst c \<noteq> k) cs))"
proof (induction cs)
  case Nil
  then show ?case by simp
next
  case (Cons c cs)
  show ?case
  proof (cases "fst c = k")
    case True
    with Cons.prems have cv: "c = (k, v)" by (cases c) simp
    from True Cons.prems have "k \<notin> fst ` set cs" by auto
    then have "filter (\<lambda>c. fst c \<noteq> k) cs = cs"
      by (intro filter_True) auto
    with cv show ?thesis by simp
  next
    case False
    with Cons.prems have "map_of cs k = Some v" "distinct (map fst cs)"
      by (cases c; simp)+
    with Cons.IH have "sum_list (map f cs) - f (k, v) = sum_list (map f (filter (\<lambda>c. fst c \<noteq> k) cs))"
      by simp
    with False show ?thesis by simp
  qed
qed

lemma loaded_distinct: "loaded t \<Longrightarrow> distinct (map fst (cols t))"
  by (simp add: loaded_def)

lemma loaded_length: "loaded t \<Longrightarrow> c \<in> set (cols t) \<Longrightarrow> length (snd c) = nrows t"
  by (simp add: loaded_def list_all_iff)

lemma has_time_cells:
  "has_time t \<Longrightarrow> map_of (cols t) ''TimeStep'' = Some (cells t ''TimeStep'')"
  by (auto simp: has_time_def columns_def cells_def map_of_eq_None_iff split: option.splits)

lemma getitem_cells: "n \<in> set (columns t) \<Longrightarrow> getitem t n = Inr (cells t n)"
  by (auto simp: columns_def cells_def getitem_def map_of_eq_None_iff split: option.splits)

lemma cells_member: "n \<in> set (columns t) \<Longrightarrow> (n, cells t n) \<in> set (cols t)"
  by (auto simp: columns_def cells_def map_of_eq_None_iff split: option.splits dest: map_of_SomeD)

lemma wrap64_minus: "wrap64 (wrap64 a - b) = wrap64 (a - b)"
proof -
  have "(((a + 2 ^ 63) mod 2 ^ 64 - 2 ^ 63) - b + 2 ^ 63) mod 2 ^ 64 =
        ((a + 2 ^ 63) mod 2 ^ 64 - b) mod (2 ^ 64 :: int)"
    by (simp add: algebra_simps)
  also have "\<dots> = (a + 2 ^ 63 - b) mod 2 ^ 64"
    by (rule mod_diff_left_eq)
  also have "\<dots> = (a - b + 2 ^ 63) mod 2 ^ 64"
    by (simp add: algebra_simps)
  finally show ?thesis by (simp add: wrap64_def)
qed

lemma wrap64_small: "- (2 ^ 63) \<le> i \<Longrightarrow> i < 2 ^ 63 \<Longrightarrow> wrap64 i = i"
  by (simp add: wrap64_def)

lemma total_population_first:
  assumes "loaded t" "0 < nrows t" "has_time t"
  shows "total_population t 0 =
           Inr (wrap64 (sum_list (map (\<lambda>c. hd (snd c)) (species_columns t))))"
proof -
  let ?ts = "cells t ''TimeStep''"
  have m: "map_of (cols t) ''TimeStep'' = Some ?ts" using assms(3) by (rule has_time_cells)
  have len: "length (snd c) = nrows t" if "c \<in> set (cols t)" for c
    using assms(1) that by (rule loaded_length)
  have "snd c ! 0 = hd (snd c)" if "c \<in> set (cols t)" for c
    using len [OF that] assms(2) by (cases "snd c") simp_all
  then have row: "iloc_row t 0 = Inr (map (\<lambda>c. hd (snd c)) (cols t))"
    using assms(2) by (simp add: iloc_row_def position_def)
  have "(''TimeStep'', ?ts) \<in> set (cols t)" using m by (rule map_of_SomeD)
  then have "length ?ts = nrows t" using len by fastforce
  then have ts: "iloc ?ts 0 = Inr (hd ?ts)" using assms(2) by (intro iloc_first) auto
  have g: "getitem t ''TimeStep'' = Inr ?ts" by (simp add: getitem_def m)
  have "sum_list (map (\<lambda>c. hd (snd c)) (cols t)) - hd ?ts =
        sum_list (map (\<lambda>c. hd (snd c)) (species_columns t))"
    using sum_without_key [OF loaded_distinct [OF assms(1)] m, of "\<lambda>c. hd (snd c)"]
    by (simp add: species_columns_def)
  then show ?thesis by (simp add: total_population_def bind_err_def row g ts wrap64_minus)
qed

lemma total_population_last:
  assumes "loaded t" "0 < nrows t" "has_time t"
  shows "total_population t (- 1) =
           Inr (wrap64 (sum_list (map (\<lambda>c. last (snd c)) (species_columns t))))"
proof -
  let ?ts = "cells t ''TimeStep''"
  have m: "map_of (cols t) ''TimeStep'' = Some ?ts" using assms(3) by (rule has_time_cells)
  have len: "length (snd c) = nrows t" if "c \<in> set (cols t)" for c
    using assms(1) that by (rule loaded_length)
  have nth: "snd c ! (nrows t - 1) = last (snd c)" if "c \<in> set (cols t)" for c
  proof -
    have "snd c \<noteq> []" using len [OF that] assms(2) by auto
    then show ?thesis using last_conv_nth [of "snd c"] len [OF that] by simp
  qed
  have "position (nrows t) (- 1) = Some (nrows t - 1)"
    using assms(2) by (auto simp: position_def nat_diff_distrib' int_ops)
  then have row: "iloc_row t (- 1) = Inr (map (\<lambda>c. last (snd c)) (cols t))"
    using nth by (simp add: iloc_row_def)
  have "(''TimeStep'', ?ts) \<in> set (cols t)" using m by (rule map_of_SomeD)
  then have "length ?ts = nrows t" using len by fastforce
  then have ts: "iloc ?ts (- 1) = Inr (last ?ts)" using assms(2) by (intro iloc_last) auto
  have g: "getitem t ''TimeStep'' = Inr ?ts" by (simp add: getitem_def m)
  have "sum_list (map (\<lambda>c. last (snd c)) (cols t)) - last ?ts =
        sum_list (map (\<lambda>c. last (snd c)) (species_columns t))"
    using sum_without_key [OF loaded_distinct [OF assms(1)] m, of "\<lambda>c. last (snd c)"]
    by (simp add: species_columns_def)
  then show ?thesis by (simp add: total_population_def bind_err_def row g ts wrap64_minus)
qed

section \<open>The report as a whole\<close>

lemma rows_nonempty: "loaded t \<Longrightarrow> 0 < nrows t \<Longrightarrow> c \<in> set (cols t) \<Longrightarrow> snd c \<noteq> []"
  using loaded_length [of t c] by auto

lemma stats_loop_columns:
  assumes "loaded t" "0 < nrows t"
  shows "stats_loop t (columns t) w =
           (Returned (), t, print_all (map (\<lambda>c. render_line (summary c)) (species_columns t)) w)"
  unfolding columns_def species_columns_def
  using assms by (intro stats_loop_rows) (auto simp: loaded_distinct dest: rows_nonempty)

lemma print_statistics_report:
  assumes "loaded t" "0 < nrows t" "has_time t"
  shows "print_statistics t w =
           (Returned (), t,
            print_all
              (heading @ map (\<lambda>c. render_line (summary c)) (species_columns t) @
               [newline # rule 80 CHR ''='',
                ''Total timesteps: '' @ str_int (int (nrows t)),
                ''Initial total population: '' @
                  fmt_f_int 0 (wrap64 (sum_list (map (\<lambda>c. hd (snd c)) (species_columns t)))),
                ''Final total population: '' @
                  fmt_f_int 0 (wrap64 (sum_list (map (\<lambda>c. last (snd c)) (species_columns t)))),
                rule 80 CHR ''='' @ [newline]]) w)"
  by (simp add: print_statistics_def and_then_def print_total_def
      stats_loop_columns [OF assms(1,2)] total_population_first [OF assms]
      total_population_last [OF assms] print_all_append print_all_Cons print_all_Nil)

lemma total_population_no_time:
  assumes "0 < nrows t" "\<not> has_time t"
  shows "total_population t 0 = Inl (KeyError ''TimeStep'')"
  using assms
  by (simp add: total_population_def bind_err_def iloc_row_def position_def has_time_def
      getitem_absent)

lemma print_statistics_no_time:
  assumes "loaded t" "0 < nrows t" "\<not> has_time t"
  shows "print_statistics t w =
           (Raised (KeyError ''TimeStep''), t,
            print_all
              (heading @ map (\<lambda>c. render_line (summary c)) (species_columns t) @
               [newline # rule 80 CHR ''='',
                ''Total timesteps: '' @ str_int (int (nrows t))]) w)"
  by (simp add: print_statistics_def and_then_def print_total_def
      stats_loop_columns [OF assms(1,2)] total_population_no_time [OF assms(2,3)]
      print_all_append print_all_Cons print_all_Nil)

lemma position_no_rows: "position 0 i = None"
  by (auto simp: position_def)

lemma total_population_no_rows:
  "nrows t = 0 \<Longrightarrow> total_population t i = Inl IndexError"
  by (simp add: total_population_def bind_err_def iloc_row_def position_no_rows)

lemma stats_loop_only_time:
  "\<forall>n\<in>set ns. n = ''TimeStep'' \<Longrightarrow> stats_loop t ns w = (Returned (), t, w)"
  by (induction ns) simp_all

lemma print_statistics_no_rows:
  assumes "loaded t" "nrows t = 0"
  shows "fst (print_statistics t w) = Raised IndexError"
proof (cases "\<exists>c\<in>set (cols t). fst c \<noteq> ''TimeStep''")
  case True
  have "\<forall>c\<in>set (cols t). snd c = []"
    using assms loaded_length [of t] by auto
  then have "stats_loop t (map fst (cols t)) w' = (Raised IndexError, t, w')" for w'
    using True assms(1) by (intro stats_loop_no_rows) (auto simp: loaded_distinct)
  then show ?thesis by (simp add: print_statistics_def and_then_def columns_def)
next
  case False
  then have "stats_loop t (columns t) w' = (Returned (), t, w')" for w'
    by (intro stats_loop_only_time) (auto simp: columns_def)
  then show ?thesis
    by (simp add: print_statistics_def and_then_def print_total_def
        total_population_no_rows [OF assms(2)])
qed

section \<open>The charts as a whole\<close>

lemma on_gca_empty: "figures w = [[]] \<Longrightarrow> on_gca f w = w\<lparr>figures := [[f new_axes]]\<rparr>"
  by (simp add: on_gca_def gcf_def)

lemma on_gca_axes: "figures w = [[ax]] \<Longrightarrow> on_gca f w = w\<lparr>figures := [[f ax]]\<rparr>"
  by (simp add: on_gca_def gcf_def)

lemma plot_all_loop_axes:
  assumes "has_time t" "set ns \<subseteq> set (columns t)"
  shows "figures w = [[ax]] \<Longrightarrow>
         plot_all_loop t ns w =
           (Returned (), t,
            w\<lparr>figures :=
                 [[ax\<lparr>lines := lines ax @ map (line_of t) (filter (\<lambda>n. n \<noteq> ''TimeStep'') ns)\<rparr>]]\<rparr>)"
  using assms(2)
proof (induction ns arbitrary: w ax)
  case Nil
  then show ?case by simp
next
  case (Cons n ns)
  show ?case
  proof (cases "n = ''TimeStep''")
    case True
    with Cons show ?thesis by simp
  next
    case False
    have g: "getitem t ''TimeStep'' = Inr (cells t ''TimeStep'')" "getitem t n = Inr (cells t n)"
      using assms(1) Cons.prems by (simp_all add: getitem_cells has_time_def)
    let ?w = "w\<lparr>figures := [[add_line (cells t ''TimeStep'') (cells t n) n 2 ax]]\<rparr>"
    have "plot_all_loop t ns ?w =
           (Returned (), t,
            ?w\<lparr>figures :=
                 [[(add_line (cells t ''TimeStep'') (cells t n) n 2 ax)
                    \<lparr>lines := lines (add_line (cells t ''TimeStep'') (cells t n) n 2 ax) @
                       map (line_of t) (filter (\<lambda>n. n \<noteq> ''TimeStep'') ns)\<rparr>]]\<rparr>)"
      using Cons.prems by (intro Cons.IH) simp_all
    then show ?thesis
      using False Cons.prems(1) by (simp add: g on_gca_axes add_line_def line_of_def)
  qed
qed

lemma plot_all_loop_empty:
  assumes "has_time t" "set ns \<subseteq> set (columns t)"
  shows "figures w = [[]] \<Longrightarrow>
         plot_all_loop t ns w =
           (Returned (), t,
            if filter (\<lambda>n. n \<noteq> ''TimeStep'') ns = [] then w
            else w\<lparr>figures :=
                 [[new_axes\<lparr>lines := map (line_of t) (filter (\<lambda>n. n \<noteq> ''TimeStep'') ns)\<rparr>]]\<rparr>)"
  using assms(2)
proof (induction ns arbitrary: w)
  case Nil
  then show ?case by simp
next
  case (Cons n ns)
  show ?case
  proof (cases "n = ''TimeStep''")
    case True
    with Cons show ?thesis by simp
  next
    case False
    have g: "getitem t ''TimeStep'' = Inr (cells t ''TimeStep'')" "getitem t n = Inr (cells t n)"
      using assms(1) Cons.prems by (simp_all add: getitem_cells has_time_def)
    let ?ax = "add_line (cells t ''TimeStep'') (cells t n) n 2 new_axes"
    let ?w = "w\<lparr>figures := [[?ax]]\<rparr>"
    have "plot_all_loop t ns ?w =
           (Returned (), t,
            ?w\<lparr>figures :=
                 [[?ax\<lparr>lines := lines ?ax @ map (line_of t) (filter (\<lambda>n. n \<noteq> ''TimeStep'') ns)\<rparr>]]\<rparr>)"
      using Cons.prems assms(1) by (intro plot_all_loop_axes) simp_all
    then show ?thesis
      using False Cons.prems(1) by (simp add: g on_gca_empty add_line_def line_of_def new_axes_def)
  qed
qed

lemma on_gca_figures:
  "on_gca f w =
     w\<lparr>figures :=
        map_last (\<lambda>fig. if fig = [] then [f new_axes] else map_last f fig)
          (if figures w = [] then [[]] else figures w)\<rparr>"
  by (simp add: on_gca_def gcf_def plt_figure_def)

lemma plt_savefig_one:
  "figures w = [fig] \<Longrightarrow> plt_savefig output w = w\<lparr>files := (files w)(output \<mapsto> Image fig)\<rparr>"
  by (simp add: plt_savefig_def gcf_def current_figure_def)

lemma plot_all_populations_chart:
  assumes "has_time t"
  shows "plot_all_populations t output w =
           (Returned (), t,
            w\<lparr>files := (files w)(output \<mapsto> Image
                  [\<lparr>lines = map (line_of t) (filter (\<lambda>n. n \<noteq> ''TimeStep'') (columns t)),
                    title = ''Ecosystem Population Dynamics (All Species)'',
                    xlabel = ''Time Step'', ylabel = ''Population Count'',
                    legend = Some (legend_labels
                      (map (line_of t) (filter (\<lambda>n. n \<noteq> ''TimeStep'') (columns t)))),
                    grid = True\<rparr>]),
              stdout := stdout w @ [''Saved: '' @ output],
              figures := []\<rparr>)"
proof -
  define w0 where "w0 = plt_figure (plt_close_all w)"
  define ls where "ls = map (line_of t) (filter (\<lambda>n. n \<noteq> ''TimeStep'') (columns t))"
  have f: "figures w0 = [[]]" by (simp add: w0_def plt_figure_def plt_close_all_def)
  have w0: "w0 = w\<lparr>figures := [[]]\<rparr>" by (simp add: w0_def plt_figure_def plt_close_all_def)
  obtain w1 where loop: "plot_all_loop t (columns t) w0 = (Returned (), t, w1)"
    and w1: "on_gca (\<lambda>ax. ax\<lparr>title := ttl\<rparr>) w1 = w\<lparr>figures := [[new_axes\<lparr>lines := ls, title := ttl\<rparr>]]\<rparr>" for ttl
  proof (cases "filter (\<lambda>n. n \<noteq> ''TimeStep'') (columns t) = []")
    case True
    show ?thesis
    proof (rule that [of w0])
      show "plot_all_loop t (columns t) w0 = (Returned (), t, w0)"
        using plot_all_loop_empty [OF assms subset_refl f] True by simp
      show "on_gca (\<lambda>ax. ax\<lparr>title := ttl\<rparr>) w0 = w\<lparr>figures := [[new_axes\<lparr>lines := ls, title := ttl\<rparr>]]\<rparr>" for ttl
        using True by (simp add: on_gca_figures w0 ls_def new_axes_def)
    qed
  next
    case False
    show ?thesis
    proof (rule that [of "w0\<lparr>figures := [[new_axes\<lparr>lines := ls\<rparr>]]\<rparr>"])
      show "plot_all_loop t (columns t) w0 = (Returned (), t, w0\<lparr>figures := [[new_axes\<lparr>lines := ls\<rparr>]]\<rparr>)"
        using plot_all_loop_empty [OF assms subset_refl f] False by (simp add: ls_def)
      show "on_gca (\<lambda>ax. ax\<lparr>title := ttl\<rparr>) (w0\<lparr>figures := [[new_axes\<lparr>lines := ls\<rparr>]]\<rparr>) =
            w\<lparr>figures := [[new_axes\<lparr>lines := ls, title := ttl\<rparr>]]\<rparr>" for ttl
        by (simp add: on_gca_figures w0)
    qed
  qed
  have "plot_all_populations t output w =
          (Returned (), t,
           print (''Saved: '' @ output)
             (plt_close
               (plt_savefig output
                 (on_gca (\<lambda>ax. ax\<lparr>grid := True\<rparr>)
                   (on_gca call_legend
                     (on_gca (\<lambda>ax. ax\<lparr>ylabel := ''Population Count''\<rparr>)
                       (on_gca (\<lambda>ax. ax\<lparr>xlabel := ''Time Step''\<rparr>)
                         (w\<lparr>figures := [[new_axes\<lparr>lines := ls,
                             title := ''Ecosystem Population Dynamics (All Species)''\<rparr>]]\<rparr>))))))))"
    unfolding plot_all_populations_def w0_def [symmetric] loop and_then_def
    by (simp only: w1 prod.case outcome.case)
  then show ?thesis
    by (simp add: on_gca_figures plt_savefig_one plt_close_def print_def new_axes_def ls_def
        call_legend_def)
qed

lemma on_axes_one:
  "figures w = [fig] \<Longrightarrow> k < length fig \<Longrightarrow>
     on_axes k f w = w\<lparr>figures := [fig[k := f (fig ! k)]]\<rparr>"
  by (simp add: on_axes_def)

lemma plot_group_draws:
  assumes "has_time t"
  shows "figures w = [fig] \<Longrightarrow> k < length fig \<Longrightarrow>
         plot_group k g t w =
           (Returned (), t,
            w\<lparr>figures :=
                 [fig[k := (fig ! k)\<lparr>lines := lines (fig ! k) @
                        map (line_of t) (filter (\<lambda>n. n \<in> set (columns t)) g)\<rparr>]]\<rparr>)"
proof (induction g arbitrary: w fig)
  case Nil
  then show ?case by simp
next
  case (Cons n g)
  show ?case
  proof (cases "n \<in> set (columns t)")
    case False
    with Cons show ?thesis by simp
  next
    case True
    have g: "getitem t ''TimeStep'' = Inr (cells t ''TimeStep'')" "getitem t n = Inr (cells t n)"
      using assms True by (simp_all add: getitem_cells has_time_def)
    let ?fig = "fig[k := add_line (cells t ''TimeStep'') (cells t n) n 2 (fig ! k)]"
    let ?w = "w\<lparr>figures := [?fig]\<rparr>"
    have "plot_group k g t ?w =
           (Returned (), t,
            ?w\<lparr>figures :=
                 [?fig[k := (?fig ! k)\<lparr>lines := lines (?fig ! k) @
                        map (line_of t) (filter (\<lambda>n. n \<in> set (columns t)) g)\<rparr>]]\<rparr>)"
      using Cons.prems by (intro Cons.IH) simp_all
    moreover have "\<lparr>xdata = cells t ''TimeStep'', ydata = cells t n, label = n, linewidth = 2\<rparr> =
        line_of t n"
      by (simp add: line_of_def)
    ultimately show ?thesis
      using True Cons.prems by (simp add: g on_axes_one add_line_def)
  qed
qed

lemma decorate_panel:
  assumes "figures w = [fig]" "k < length fig"
  shows "decorate k ttl xl w =
           w\<lparr>figures :=
               [fig[k := (fig ! k)\<lparr>title := ttl,
                      xlabel := (case xl of None \<Rightarrow> xlabel (fig ! k) | Some s \<Rightarrow> s),
                      ylabel := ''Population'',
                      legend := Some (legend_labels (lines (fig ! k))), grid := True\<rparr>]]\<rparr>"
  using assms by (cases xl) (simp_all add: decorate_def on_axes_one call_legend_def)

lemma plot_trophic_levels_chart:
  assumes "has_time t"
  shows "plot_trophic_levels t output w =
           (Returned (), t,
            w\<lparr>files := (files w)(output \<mapsto> Image
                  [\<lparr>lines = map (line_of t) (filter (\<lambda>n. n \<in> set (columns t)) producers),
                    title = ''Producers (Plants)'', xlabel = [], ylabel = ''Population'',
                    legend =
                      Some (legend_labels
                        (map (line_of t) (filter (\<lambda>n. n \<in> set (columns t)) producers))),
                    grid = True\<rparr>,
                   \<lparr>lines = map (line_of t) (filter (\<lambda>n. n \<in> set (columns t)) herbivores),
                    title = ''Primary Consumers (Herbivores)'', xlabel = [],
                    ylabel = ''Population'', legend =
                      Some (legend_labels
                        (map (line_of t) (filter (\<lambda>n. n \<in> set (columns t)) herbivores))),
                    grid = True\<rparr>,
                   \<lparr>lines = map (line_of t) (filter (\<lambda>n. n \<in> set (columns t)) predators),
                    title = ''Predators (Carnivores & Omnivores)'', xlabel = ''Time Step'',
                    ylabel = ''Population'', legend =
                      Some (legend_labels
                        (map (line_of t) (filter (\<lambda>n. n \<in> set (columns t)) predators))),
                    grid = True\<rparr>]),
              stdout := stdout w @ [''Saved: '' @ output],
              figures := []\<rparr>)"
proof -
  define w0 where "w0 = plt_subplots 3 (plt_close_all w)"
  have w0: "w0 = w\<lparr>figures := [[new_axes, new_axes, new_axes]]\<rparr>"
    by (simp add: w0_def plt_subplots_def plt_close_all_def numeral_3_eq_3)
  have f0: "figures w0 = [[new_axes, new_axes, new_axes]]" by (simp add: w0)
  define p0 where "p0 = new_axes\<lparr>lines := lines new_axes @
      map (line_of t) (filter (\<lambda>n. n \<in> set (columns t)) producers),
      title := ''Producers (Plants)'', xlabel := xlabel new_axes,
      ylabel := ''Population'', legend :=
        Some (legend_labels
                        (map (line_of t) (filter (\<lambda>n. n \<in> set (columns t)) producers))),
                    grid := True\<rparr>"
  define p1 where "p1 = new_axes\<lparr>lines := lines new_axes @
      map (line_of t) (filter (\<lambda>n. n \<in> set (columns t)) herbivores),
      title := ''Primary Consumers (Herbivores)'', xlabel := xlabel new_axes,
      ylabel := ''Population'', legend :=
        Some (legend_labels
                        (map (line_of t) (filter (\<lambda>n. n \<in> set (columns t)) herbivores))),
                    grid := True\<rparr>"
  define p2 where "p2 = new_axes\<lparr>lines := lines new_axes @
      map (line_of t) (filter (\<lambda>n. n \<in> set (columns t)) predators),
      title := ''Predators (Carnivores & Omnivores)'', xlabel := ''Time Step'',
      ylabel := ''Population'', legend :=
        Some (legend_labels
                        (map (line_of t) (filter (\<lambda>n. n \<in> set (columns t)) predators))),
                    grid := True\<rparr>"
  define l0 where "l0 = new_axes\<lparr>lines := lines new_axes @
      map (line_of t) (filter (\<lambda>n. n \<in> set (columns t)) producers)\<rparr>"
  define l1 where "l1 = new_axes\<lparr>lines := lines new_axes @
      map (line_of t) (filter (\<lambda>n. n \<in> set (columns t)) herbivores)\<rparr>"
  define l2 where "l2 = new_axes\<lparr>lines := lines new_axes @
      map (line_of t) (filter (\<lambda>n. n \<in> set (columns t)) predators)\<rparr>"
  define v0 where "v0 = w0\<lparr>figures := [[l0, new_axes, new_axes]]\<rparr>"
  define w1 where "w1 = w0\<lparr>figures := [[p0, new_axes, new_axes]]\<rparr>"
  define v1 where "v1 = w0\<lparr>figures := [[p0, l1, new_axes]]\<rparr>"
  define w2 where "w2 = w0\<lparr>figures := [[p0, p1, new_axes]]\<rparr>"
  define v2 where "v2 = w0\<lparr>figures := [[p0, p1, l2]]\<rparr>"
  define w3 where "w3 = w0\<lparr>figures := [[p0, p1, p2]]\<rparr>"
  have f3: "figures w3 = [[p0, p1, p2]]" by (simp add: w3_def)
  have g0: "plot_group 0 producers t w0 = (Returned (), t, v0)"
    by (subst plot_group_draws [OF assms f0]) (simp_all add: v0_def l0_def)
  have d0: "decorate 0 ''Producers (Plants)'' None v0 = w1"
    by (subst decorate_panel [of v0 "[l0, new_axes, new_axes]"])
      (simp_all add: v0_def w1_def p0_def l0_def new_axes_def)
  have g1: "plot_group (Suc 0) herbivores t w1 = (Returned (), t, v1)"
    by (subst plot_group_draws [OF assms, of w1 "[p0, new_axes, new_axes]"])
      (simp_all add: w1_def v1_def l1_def)
  have d1: "decorate (Suc 0) ''Primary Consumers (Herbivores)'' None v1 = w2"
    by (subst decorate_panel [of v1 "[p0, l1, new_axes]"])
      (simp_all add: v1_def w2_def p1_def l1_def new_axes_def)
  have g2: "plot_group 2 predators t w2 = (Returned (), t, v2)"
    by (subst plot_group_draws [OF assms, of w2 "[p0, p1, new_axes]"])
      (simp_all add: w2_def v2_def l2_def numeral_2_eq_2)
  have d2: "decorate 2 ''Predators (Carnivores & Omnivores)'' (Some ''Time Step'') v2 = w3"
    by (subst decorate_panel [of v2 "[p0, p1, l2]"])
      (simp_all add: v2_def w3_def p2_def l2_def numeral_2_eq_2 new_axes_def)
  have "plot_trophic_levels t output w =
          (Returned (), t, print (''Saved: '' @ output) (plt_close (plt_savefig output w3)))"
    unfolding plot_trophic_levels_def w0_def [symmetric]
    by (simp add: and_then_def g0 d0 g1 d1 g2 d2)
  also have "plt_savefig output w3 = w3\<lparr>files := (files w3)(output \<mapsto> Image [p0, p1, p2])\<rparr>"
    using f3 by (rule plt_savefig_one)
  finally show ?thesis
    by (simp add: plt_close_def print_def w3_def w0 p0_def p1_def p2_def new_axes_def)
qed

section \<open>Integers shown through the float format\<close>

lemma bit_length_bound: "n < 2 ^ k \<Longrightarrow> bit_length n \<le> k"
proof (induction k arbitrary: n)
  case 0
  then show ?case by (simp add: bit_length.simps)
next
  case (Suc k)
  then have "n div 2 < 2 ^ k" by auto
  then have "bit_length (n div 2) \<le> k" by (rule Suc.IH)
  then show ?case by (subst bit_length.simps) simp
qed

lemma round_half_even_int: "round_half_even (of_int k) = k"
  by (simp add: round_half_even_def)

lemma exponent_int_bound:
  assumes "0 < a" "a < 2 ^ 53"
  shows "exponent (of_int a) \<le> 52"
proof -
  have "nat a < 2 ^ 53" using assms by (simp add: nat_less_iff)
  then have "bit_length (nat a) \<le> 53" by (rule bit_length_bound)
  moreover have "bit_length (nat 1) = 1" by (simp add: bit_length.simps)
  ultimately show ?thesis
    by (simp add: exponent_def Let_def)
qed

lemma b64_int:
  assumes "\<bar>n\<bar> < 2 ^ 53"
  shows "b64 (of_int n) = of_int n"
proof (cases "n = 0")
  case True
  then show ?thesis by (simp add: b64_def)
next
  case False
  define s where "s = 52 - exponent (of_int \<bar>n\<bar>)"
  have "0 \<le> s" using exponent_int_bound [of "\<bar>n\<bar>"] assms False by (simp add: s_def)
  then have p: "pow2 s = 2 ^ nat s" "pow2 (- s) = 1 / 2 ^ nat s"
    by (auto simp: pow2_def)
  have "\<bar>rat_of_int n\<bar> * 2 ^ nat s = of_int (\<bar>n\<bar> * 2 ^ nat s)" by simp
  then have m: "round_half_even (\<bar>rat_of_int n\<bar> * 2 ^ nat s) = \<bar>n\<bar> * 2 ^ nat s"
    by (simp only: round_half_even_int)
  have "b64 (of_int n) = sgn (rat_of_int n) * of_int (\<bar>n\<bar> * 2 ^ nat s) * (1 / 2 ^ nat s)"
    using False unfolding b64_def Let_def s_def [symmetric, simplified] p m
    by (simp add: s_def)
  also have "\<dots> = of_int n"
    by (simp add: mult_sgn_abs)
  finally show ?thesis .
qed

lemma fmt_f_int_exact:
  assumes "\<bar>n\<bar> < 2 ^ 53"
  shows "fmt_f_int 0 n = str_int n"
proof -
  have "round_half_even \<bar>rat_of_int n\<bar> = \<bar>n\<bar>"
    using round_half_even_int [of "\<bar>n\<bar>"] by simp
  then show ?thesis
    by (simp add: fmt_f_int_def b64_int [OF assms] fmt_f_def str_int_def Let_def)
qed

section \<open>The example tables\<close>

lemma example_table_loaded: "loaded example_table"
  by (simp add: loaded_def example_table_def)

lemma example_table_has_time: "has_time example_table"
  by (simp add: has_time_def columns_def example_table_def)

lemma str_int_113: "str_int 113 = ''113''"
  by code_simp

lemma str_int_104: "str_int 104 = ''104''"
  by code_simp

section \<open>The table a call leaves behind\<close>

lemma and_then_keeps:
  assumes "fst (snd r) = t" and "\<And>w'. fst (snd (k t w')) = t"
  shows "fst (snd (and_then r k)) = t"
  using assms by (cases r) (auto simp: and_then_def split: outcome.splits)

lemma stats_loop_keeps: "fst (snd (stats_loop t ns w)) = t"
  by (induction ns arbitrary: w) (simp_all split: sum.splits)

lemma plot_all_loop_keeps: "fst (snd (plot_all_loop t ns w)) = t"
  by (induction ns arbitrary: w) (simp_all split: sum.splits)

lemma plot_group_keeps: "fst (snd (plot_group k g t w)) = t"
  by (induction g arbitrary: w) (simp_all split: sum.splits)

lemma print_total_keeps: "fst (snd (print_total caption i t w)) = t"
  by (simp add: print_total_def split: sum.splits)

section \<open>The series of a chart\<close>

lemma cells_of_column:
  "loaded t \<Longrightarrow> c \<in> set (cols t) \<Longrightarrow> cells t (fst c) = snd c"
proof -
  assume "loaded t" "c \<in> set (cols t)"
  then have "map_of (cols t) (fst c) = Some (snd c)"
    by (intro map_of_is_SomeI) (simp_all add: loaded_def)
  then show ?thesis by (simp add: cells_def)
qed

lemma lines_of_columns:
  assumes "loaded t"
  shows "map (line_of t) (filter P (columns t)) =
         map (\<lambda>(name, cs).
                \<lparr>xdata = cells t ''TimeStep'', ydata = cs, label = name, linewidth = 2\<rparr>)
             (filter (\<lambda>c. P (fst c)) (cols t))"
proof -
  have "map (line_of t) (filter P (columns t)) =
        map (\<lambda>c. line_of t (fst c)) (filter (\<lambda>c. P (fst c)) (cols t))"
    by (simp add: columns_def filter_map comp_def)
  also have "\<dots> = map (\<lambda>(name, cs).
                \<lparr>xdata = cells t ''TimeStep'', ydata = cs, label = name, linewidth = 2\<rparr>)
             (filter (\<lambda>c. P (fst c)) (cols t))"
    using cells_of_column [OF assms]
    by (intro map_cong refl) (auto simp: line_of_def)
  finally show ?thesis .
qed

lemma label_line_of: "label (line_of t n) = n"
  by (simp add: line_of_def)

lemma labels_of_lines: "map label (map (line_of t) ns) = ns"
  by (induction ns) (simp_all add: label_line_of)

lemma group_sets:
  "set producers = {''Wildflowers'', ''Berries'', ''Aspen'', ''Spruce''}"
  "set herbivores = {''Deer'', ''Bunny'', ''FieldMouse'', ''GroundSquirrel'', ''Chipmunk''}"
  "set predators = {''Fox'', ''Coyote'', ''BlackBear''}"
  by (simp_all add: producers_def herbivores_def predators_def)

lemma panel_labels:
  "n \<in> label ` set (map (line_of t) (filter (\<lambda>n. n \<in> set (columns t)) g)) \<longleftrightarrow>
     n \<in> set (columns t) \<and> n \<in> set g"
proof -
  have "label ` line_of t ` A = A" for A
    by (simp add: image_image label_line_of)
  then show ?thesis by auto
qed

section \<open>Tables without a column named TimeStep\<close>

lemma plot_all_loop_no_time:
  assumes "\<not> has_time t"
  shows "plot_all_loop t ns w =
           (if \<exists>n\<in>set ns. n \<noteq> ''TimeStep'' then (Raised (KeyError ''TimeStep''), t, w)
            else (Returned (), t, w))"
proof -
  have g: "getitem t ''TimeStep'' = Inl (KeyError ''TimeStep'')"
    using assms by (simp add: getitem_absent has_time_def)
  show ?thesis by (induction ns) (simp_all add: g)
qed

lemma plot_group_no_time:
  assumes "\<not> has_time t"
  shows "plot_group k g t w =
           (if \<exists>n\<in>set g. n \<in> set (columns t) then (Raised (KeyError ''TimeStep''), t, w)
            else (Returned (), t, w))"
proof -
  have g: "getitem t ''TimeStep'' = Inl (KeyError ''TimeStep'')"
    using assms by (simp add: getitem_absent has_time_def)
  show ?thesis by (induction g) (simp_all add: g)
qed

lemma plot_all_populations_no_time:
  assumes "\<not> has_time t" "cols t \<noteq> []"
  shows "plot_all_populations t output w =
           (Raised (KeyError ''TimeStep''), t, w\<lparr>figures := [[]]\<rparr>)"
proof -
  have "\<exists>n\<in>set (columns t). n \<noteq> ''TimeStep''"
    using assms by (cases "cols t") (auto simp: has_time_def columns_def)
  then show ?thesis
    by (simp add: plot_all_populations_def and_then_def plot_all_loop_no_time [OF assms(1)]
        plt_figure_def plt_close_all_def)
qed

lemma plot_trophic_levels_no_time:
  assumes "\<not> has_time t"
    and "\<exists>n\<in>set (producers @ herbivores @ predators). n \<in> set (columns t)"
  shows "fst (plot_trophic_levels t output w) = Raised (KeyError ''TimeStep'')"
    and "files (snd (snd (plot_trophic_levels t output w))) = files w"
  using assms(2)
  by (auto simp: plot_trophic_levels_def and_then_def plot_group_no_time [OF assms(1)]
      plt_subplots_def plt_close_all_def decorate_def on_axes_def)

lemma summary_printed:
  assumes "loaded t" "0 < nrows t" "c \<in> set (cols t)" "fst c \<noteq> ''TimeStep''"
  shows "render_line (summary c) \<in> set (stdout (snd (snd (print_statistics t w))))"
proof -
  have "c \<in> set (species_columns t)" using assms(3,4) by (simp add: species_columns_def)
  then have "render_line (summary c) \<in>
      set (map (\<lambda>c. render_line (summary c)) (species_columns t))"
    by (simp add: image_iff) blast
  then show ?thesis
    by (cases "has_time t")
      (simp_all add: print_statistics_report [OF assms(1,2)]
        print_statistics_no_time [OF assms(1,2)] stdout_print_all del: set_map)
qed

section \<open>The labels of the saved charts\<close>

lemma labels_of_drawn: "map (label \<circ> line_of t) ns = ns"
  by (induction ns) (simp_all add: label_line_of)

lemma chart_labels_all:
  assumes "has_time t"
  shows "chart_labels (snd (snd (plot_all_populations t output w))) output =
           [filter (\<lambda>n. n \<noteq> ''TimeStep'') (columns t)]"
  by (simp add: plot_all_populations_chart [OF assms] chart_labels_def labels_of_drawn)

lemma chart_labels_trophic:
  assumes "has_time t"
  shows "chart_labels (snd (snd (plot_trophic_levels t output w))) output =
           [filter (\<lambda>n. n \<in> set (columns t)) producers,
            filter (\<lambda>n. n \<in> set (columns t)) herbivores,
            filter (\<lambda>n. n \<in> set (columns t)) predators]"
  by (simp add: plot_trophic_levels_chart [OF assms] chart_labels_def labels_of_drawn)

lemma shuffled_table_loaded: "loaded shuffled_table"
  by (simp add: loaded_def shuffled_table_def)

lemma shuffled_table_has_time: "has_time shuffled_table"
  by (simp add: has_time_def columns_def shuffled_table_def)

lemma shuffled_table_columns: "columns shuffled_table = [''TimeStep'', ''Spruce'', ''Wildflowers'']"
  by (simp add: columns_def shuffled_table_def)

section \<open>Decimal rendering is injective\<close>

lemma digits_value: "foldl (\<lambda>a c. 10 * a + (of_char c - 48)) 0 (digits n) = n"
proof (induction n rule: digits.induct)
  case (1 n)
  show ?case
  proof (cases "n < 10")
    case True
    then show ?thesis by (subst digits.simps) simp
  next
    case False
    have "n mod 10 < 10" by simp
    then have c: "of_char (char_of (48 + n mod 10) :: char) = 48 + n mod 10"
      by simp
    from False 1 show ?thesis
      by (subst digits.simps) (simp add: c)
  qed
qed

lemma digits_inject: "digits m = digits n \<Longrightarrow> m = n"
  by (metis digits_value)

lemma digits_no_minus: "CHR ''-'' \<notin> set (digits n)"
proof (induction n rule: digits.induct)
  case (1 n)
  have d: "char_of (48 + k) \<noteq> CHR ''-''" if "k < 10" for k :: nat
  proof
    assume "char_of (48 + k) = CHR ''-''"
    then have "of_char (char_of (48 + k) :: char) = (of_char CHR ''-'' :: nat)" by simp
    with that show False by simp
  qed
  show ?case
  proof (cases "n < 10")
    case True
    then show ?thesis using d [of n] by (subst digits.simps) auto
  next
    case False
    have "n mod 10 < 10" by simp
    from d [OF this] False 1 show ?thesis by (subst digits.simps) auto
  qed
qed

lemma str_int_inject: "str_int i = str_int j \<Longrightarrow> i = j"
proof -
  assume e: "str_int i = str_int j"
  consider "i < 0" "j < 0" | "i < 0" "0 \<le> j" | "0 \<le> i" "j < 0" | "0 \<le> i" "0 \<le> j"
    by linarith
  then show ?thesis
  proof cases
    case 1
    with e have "digits (nat (- i)) = digits (nat (- j))" by (simp add: str_int_def)
    then have "nat (- i) = nat (- j)" by (rule digits_inject)
    with 1 show ?thesis by linarith
  next
    case 2
    with e have "digits (nat j) = CHR ''-'' # digits (nat (- i))"
      by (simp add: str_int_def)
    then have "CHR ''-'' \<in> set (digits (nat j))" by simp
    then show ?thesis by (simp add: digits_no_minus)
  next
    case 3
    with e have "digits (nat i) = CHR ''-'' # digits (nat (- j))"
      by (simp add: str_int_def)
    then have "CHR ''-'' \<in> set (digits (nat i))" by simp
    then show ?thesis by (simp add: digits_no_minus)
  next
    case 4
    with e have "digits (nat i) = digits (nat j)" by (simp add: str_int_def)
    then have "nat i = nat j" by (rule digits_inject)
    with 4 show ?thesis by linarith
  qed
qed

section \<open>Which files a run writes\<close>

lemma touches_refl: "touches_only S w w"
  by (simp add: touches_only_def)

lemma touches_trans:
  "touches_only S w w' \<Longrightarrow> touches_only S w' w'' \<Longrightarrow> touches_only S w w''"
  by (simp add: touches_only_def)

lemma touches_mono: "touches_only S w w' \<Longrightarrow> S \<subseteq> S' \<Longrightarrow> touches_only S' w w'"
  by (auto simp: touches_only_def)

lemma touches_print: "touches_only S w (print s w)"
  by (simp add: touches_only_def print_def)

lemma touches_print_all: "touches_only S w (print_all ss w)"
  by (simp add: touches_only_def print_all_world)

lemma touches_on_gca: "touches_only S w (on_gca f w)"
  by (simp add: touches_only_def on_gca_figures)

lemma touches_on_axes: "touches_only S w (on_axes k f w)"
  by (simp add: touches_only_def on_axes_def)

lemma touches_decorate: "touches_only S w (decorate k ttl xl w)"
  by (cases xl) (auto simp: decorate_def intro!: touches_on_axes [THEN touches_trans [rotated]]
      touches_on_axes)

lemma touches_figures:
  "touches_only S w (plt_close_all w)" "touches_only S w (plt_figure w)"
  "touches_only S w (plt_subplots n w)" "touches_only S w (plt_close w)"
  by (simp_all add: touches_only_def plt_close_all_def plt_figure_def plt_subplots_def
      plt_close_def)

lemma touches_savefig: "touches_only {output} w (plt_savefig output w)"
  by (simp add: touches_only_def plt_savefig_def gcf_def plt_figure_def)

lemma touches_and_then:
  assumes "touches_only S w (snd (snd r))"
    and "\<And>d w'. touches_only S w w' \<Longrightarrow> touches_only S w (snd (snd (k d w')))"
  shows "touches_only S w (snd (snd (and_then r k)))"
  using assms by (cases r) (auto simp: and_then_def split: outcome.splits)

lemma touches_stats_loop: "touches_only S w (snd (snd (stats_loop t ns w)))"
proof (induction ns arbitrary: w)
  case Nil
  show ?case by (simp add: touches_refl)
next
  case (Cons n ns)
  have "touches_only S w (snd (snd (stats_loop t ns (print s w))))" for s
    using touches_print Cons by (rule touches_trans)
  then show ?case by (simp add: touches_refl Cons split: sum.splits)
qed

lemma touches_plot_all_loop: "touches_only S w (snd (snd (plot_all_loop t ns w)))"
proof (induction ns arbitrary: w)
  case Nil
  show ?case by (simp add: touches_refl)
next
  case (Cons n ns)
  have "touches_only S w (snd (snd (plot_all_loop t ns (on_gca f w))))" for f
    using touches_on_gca Cons by (rule touches_trans)
  then show ?case by (simp add: touches_refl Cons split: sum.splits)
qed

lemma touches_plot_group: "touches_only S w (snd (snd (plot_group k g t w)))"
proof (induction g arbitrary: w)
  case Nil
  show ?case by (simp add: touches_refl)
next
  case (Cons n g)
  have "touches_only S w (snd (snd (plot_group k g t (on_axes k f w))))" for f
    using touches_on_axes Cons by (rule touches_trans)
  then show ?case by (simp add: touches_refl Cons split: sum.splits)
qed

lemma touches_print_total: "touches_only S w (snd (snd (print_total caption i t w)))"
  by (simp add: print_total_def touches_refl touches_print split: sum.splits)

lemma touches_print_statistics: "touches_only S w (snd (snd (print_statistics t w)))"
  unfolding print_statistics_def
proof (intro touches_and_then)
  show "touches_only S w (snd (snd (stats_loop t (columns t) (print_all heading w))))"
    using touches_print_all touches_stats_loop by (rule touches_trans)
next
  fix d w' assume w': "touches_only S w w'"
  have "touches_only S w' (print s2 (print s1 w'))" for s1 s2
    using touches_print touches_print by (rule touches_trans)
  with w' have "touches_only S w (print s2 (print s1 w'))" for s1 s2
    by (rule touches_trans)
  then show "touches_only S w
         (snd (snd (print_total ''Initial total population: '' 0 d
                      (print (''Total timesteps: '' @ str_int (int (nrows d)))
                         (print (newline # rule 80 CHR ''='') w')))))"
    using touches_print_total by (rule touches_trans)
next
  fix d w' assume "touches_only S w w'"
  then show "touches_only S w (snd (snd (print_total ''Final total population: '' (- 1) d w')))"
    using touches_print_total by (rule touches_trans)
next
  fix d w' assume "touches_only S w w'"
  then show "touches_only S w
      (snd (snd (Returned (), d, print (rule 80 CHR ''='' @ [newline]) w')))"
    using touches_print by (auto intro: touches_trans)
qed

lemma touches_plot_all_populations:
  "touches_only {output} w (snd (snd (plot_all_populations t output w)))"
  unfolding plot_all_populations_def
proof (intro touches_and_then)
  have "touches_only {output} w (plt_figure (plt_close_all w))"
    using touches_figures(1) touches_figures(2) by (rule touches_trans)
  then show "touches_only {output} w
      (snd (snd (plot_all_loop t (columns t) (plt_figure (plt_close_all w)))))"
    using touches_plot_all_loop by (rule touches_trans)
next
  fix d w' assume w': "touches_only {output} w w'"
  have "touches_only {output} w'
          (print s (plt_close (plt_savefig output
             (on_gca f5 (on_gca f4 (on_gca f3 (on_gca f2 (on_gca f1 w'))))))))" for s f1 f2 f3 f4 f5
    by (intro touches_trans [OF _ touches_print] touches_trans [OF _ touches_figures(4)]
        touches_trans [OF _ touches_savefig] touches_trans [OF _ touches_on_gca] touches_on_gca)
  with w' show "touches_only {output} w
          (snd (snd (Returned (), d,
             print (''Saved: '' @ output)
               (plt_close
                 (plt_savefig output
                   (on_gca (\<lambda>ax. ax\<lparr>grid := True\<rparr>)
                     (on_gca call_legend
                       (on_gca (\<lambda>ax. ax\<lparr>ylabel := ''Population Count''\<rparr>)
                         (on_gca (\<lambda>ax. ax\<lparr>xlabel := ''Time Step''\<rparr>)
                           (on_gca
                             (\<lambda>ax. ax\<lparr>title := ''Ecosystem Population Dynamics (All Species)''\<rparr>)
                             w'))))))))))"
    by (auto intro: touches_trans)
qed

lemma touches_plot_trophic_levels:
  "touches_only {output} w (snd (snd (plot_trophic_levels t output w)))"
  unfolding plot_trophic_levels_def
proof (intro touches_and_then)
  have "touches_only {output} w (plt_subplots 3 (plt_close_all w))"
    using touches_figures(1) touches_figures(3) by (rule touches_trans)
  then show "touches_only {output} w
      (snd (snd (plot_group 0 producers t (plt_subplots 3 (plt_close_all w)))))"
    using touches_plot_group by (rule touches_trans)
next
  fix d w' assume w': "touches_only {output} w w'"
  have "touches_only {output} w' (snd (snd (plot_group k g d (decorate j ttl xl w'))))"
    for k g j ttl xl
    using touches_decorate touches_plot_group by (rule touches_trans)
  with w' show "touches_only {output} w
      (snd (snd (plot_group 1 herbivores d (decorate 0 ''Producers (Plants)'' None w'))))"
    and "touches_only {output} w
      (snd (snd (plot_group 2 predators d
                   (decorate 1 ''Primary Consumers (Herbivores)'' None w'))))"
    by (rule touches_trans)+
next
  fix d w' assume w': "touches_only {output} w w'"
  have "touches_only {output} w'
          (print s (plt_close (plt_savefig output (decorate j ttl xl w'))))" for s j ttl xl
    by (intro touches_trans [OF _ touches_print] touches_trans [OF _ touches_figures(4)]
        touches_trans [OF _ touches_savefig] touches_decorate)
  with w' show "touches_only {output} w
          (snd (snd (Returned (), d,
             print (''Saved: '' @ output)
               (plt_close
                 (plt_savefig output
                   (decorate 2 ''Predators (Carnivores & Omnivores)''
                      (Some ''Time Step'') w'))))))"
    by (auto intro: touches_trans)
qed

lemma touches_load_data: "touches_only S w (snd (load_data read_csv filename w))"
  by (simp add: load_data_def touches_refl touches_print split: option.splits sum.splits)

lemma touches_clock: "touches_only S w w' \<Longrightarrow> clock w' = clock w"
  by (simp add: touches_only_def)

lemma touches_main:
  "touches_only
     {''population_dynamics_'' @ str_int (py_int (clock w)) @ ''.png'',
      ''trophic_levels_'' @ str_int (py_int (clock w)) @ ''.png''}
     w (snd (main read_csv w))"
proof -
  let ?pd = "''population_dynamics_'' @ str_int (py_int (clock w)) @ ''.png''"
  let ?tl = "''trophic_levels_'' @ str_int (py_int (clock w)) @ ''.png''"
  let ?S = "{?pd, ?tl}"
  define w1 where
    "w1 = print (rule 50 CHR ''='') (print ''Ecosystem Data Visualization Tool'' w)"
  have t1: "touches_only ?S w w1"
    unfolding w1_def using touches_print touches_print by (rule touches_trans)
  obtain out w2 where ld: "load_data read_csv ''ecosystem_data.csv'' w1 = (out, w2)"
    by (cases "load_data read_csv ''ecosystem_data.csv'' w1")
  have "touches_only ?S w1 w2"
    using touches_load_data [of ?S w1 read_csv "''ecosystem_data.csv''"] by (simp add: ld)
  with t1 have t2: "touches_only ?S w w2" by (rule touches_trans)
  show ?thesis
  proof (cases out)
    case (Raised e)
    with ld t2 show ?thesis by (simp add: main_def w1_def [symmetric])
  next
    case (SystemExit n)
    with ld t2 show ?thesis by (simp add: main_def w1_def [symmetric])
  next
    case (Returned data)
    have "touches_only ?S w
            (snd (snd (and_then (print_statistics data w2)
               (\<lambda>data w.
                  let timestamp = py_int (clock w) in
                  and_then
                    (plot_all_populations data
                       (''population_dynamics_'' @ str_int timestamp @ ''.png'')
                       (print ''Generating visualizations...'' w))
                    (\<lambda>data w.
                       and_then
                         (plot_trophic_levels data
                            (''trophic_levels_'' @ str_int timestamp @ ''.png'') w)
                         (\<lambda>data w.
                            (Returned (), data,
                             print ''Check the generated PNG files for plots.''
                               (print (newline # ''Visualization complete!'') w))))))))"
    proof (rule touches_and_then)
      show "touches_only ?S w (snd (snd (print_statistics data w2)))"
        using t2 touches_print_statistics by (rule touches_trans)
    next
      fix d w' assume w': "touches_only ?S w w'"
      then have c: "clock w' = clock w" by (rule touches_clock)
      have "touches_only ?S w
              (snd (snd (and_then
                    (plot_all_populations d ?pd (print ''Generating visualizations...'' w'))
                    (\<lambda>data w.
                       and_then (plot_trophic_levels data ?tl w)
                         (\<lambda>data w.
                            (Returned (), data,
                             print ''Check the generated PNG files for plots.''
                               (print (newline # ''Visualization complete!'') w)))))))"
      proof (intro touches_and_then)
        have "touches_only ?S w (print ''Generating visualizations...'' w')"
          using w' touches_print by (rule touches_trans)
        moreover have "touches_only ?S (print ''Generating visualizations...'' w')
            (snd (snd (plot_all_populations d ?pd (print ''Generating visualizations...'' w'))))"
          using touches_plot_all_populations by (rule touches_mono) simp
        ultimately show "touches_only ?S w
            (snd (snd (plot_all_populations d ?pd (print ''Generating visualizations...'' w'))))"
          by (rule touches_trans)
      next
        fix d' w'' assume w'': "touches_only ?S w w''"
        have "touches_only ?S w'' (snd (snd (plot_trophic_levels d' ?tl w'')))"
          using touches_plot_trophic_levels by (rule touches_mono) simp
        with w'' show "touches_only ?S w (snd (snd (plot_trophic_levels d' ?tl w'')))"
          by (rule touches_trans)
      next
        fix d' w'' assume w'': "touches_only ?S w w''"
        have "touches_only ?S w'' (print s2 (print s1 w''))" for s1 s2
          using touches_print touches_print by (rule touches_trans)
        with w'' show "touches_only ?S w
            (snd (snd (Returned (), d',
                       print ''Check the generated PNG files for plots.''
                         (print (newline # ''Visualization complete!'') w''))))"
          by (auto intro: touches_trans)
      qed
      then show "touches_only ?S w
              (snd (snd (let timestamp = py_int (clock w') in
                  and_then
                    (plot_all_populations d
                       (''population_dynamics_'' @ str_int timestamp @ ''.png'')
                       (print ''Generating visualizations...'' w'))
                    (\<lambda>data w.
                       and_then
                         (plot_trophic_levels data
                            (''trophic_levels_'' @ str_int timestamp @ ''.png'') w)
                         (\<lambda>data w.
                            (Returned (), data,
                             print ''Check the generated PNG files for plots.''
                               (print (newline # ''Visualization complete!'') w)))))))"
        by (simp add: c Let_def)
    qed
    with ld Returned show ?thesis
      by (simp add: main_def w1_def [symmetric] lift_effect_def case_prod_unfold)
  qed
qed

lemma main_success:
  assumes "files w ''ecosystem_data.csv'' = Some c" "read_csv c = Inr t"
    and "loaded t" "0 < nrows t" "has_time t"
  shows "fst (main read_csv w) = Returned ()"
    and "\<exists>a b. files (snd (main read_csv w)) =
                 (files w)(''population_dynamics_'' @ str_int (py_int (clock w)) @ ''.png'' \<mapsto> Image a,
                           ''trophic_levels_'' @ str_int (py_int (clock w)) @ ''.png'' \<mapsto> Image b) \<and>
               map (\<lambda>ax. map label (lines ax)) a = [filter (\<lambda>n. n \<noteq> ''TimeStep'') (columns t)] \<and>
               map (\<lambda>ax. map label (lines ax)) b =
                 [filter (\<lambda>n. n \<in> set (columns t)) producers,
                  filter (\<lambda>n. n \<in> set (columns t)) herbivores,
                  filter (\<lambda>n. n \<in> set (columns t)) predators]"
proof -
  let ?a = "[\<lparr>lines = map (line_of t) (filter (\<lambda>n. n \<noteq> ''TimeStep'') (columns t)),
                    title = ''Ecosystem Population Dynamics (All Species)'',
                    xlabel = ''Time Step'', ylabel = ''Population Count'',
                    legend = Some (legend_labels
                      (map (line_of t) (filter (\<lambda>n. n \<noteq> ''TimeStep'') (columns t)))),
                    grid = True\<rparr>]"
  let ?b = "[\<lparr>lines = map (line_of t) (filter (\<lambda>n. n \<in> set (columns t)) producers),
                    title = ''Producers (Plants)'', xlabel = [], ylabel = ''Population'',
                    legend =
                      Some (legend_labels
                        (map (line_of t) (filter (\<lambda>n. n \<in> set (columns t)) producers))),
                    grid = True\<rparr>,
                   \<lparr>lines = map (line_of t) (filter (\<lambda>n. n \<in> set (columns t)) herbivores),
                    title = ''Primary Consumers (Herbivores)'', xlabel = [],
                    ylabel = ''Population'', legend =
                      Some (legend_labels
                        (map (line_of t) (filter (\<lambda>n. n \<in> set (columns t)) herbivores))),
                    grid = True\<rparr>,
                   \<lparr>lines = map (line_of t) (filter (\<lambda>n. n \<in> set (columns t)) predators),
                    title = ''Predators (Carnivores & Omnivores)'', xlabel = ''Time Step'',
                    ylabel = ''Population'', legend =
                      Some (legend_labels
                        (map (line_of t) (filter (\<lambda>n. n \<in> set (columns t)) predators))),
                    grid = True\<rparr>]"
  have m: "fst (main read_csv w) = Returned () \<and>
        files (snd (main read_csv w)) =
                 (files w)(''population_dynamics_'' @ str_int (py_int (clock w)) @ ''.png'' \<mapsto> Image ?a,
                           ''trophic_levels_'' @ str_int (py_int (clock w)) @ ''.png'' \<mapsto> Image ?b)"
    by (simp add: main_def load_data_def assms(1,2) print_statistics_report [OF assms(3-5)]
        plot_all_populations_chart [OF assms(5)] plot_trophic_levels_chart [OF assms(5)]
        and_then_def lift_effect_def print_def print_all_world Let_def)
  then show "fst (main read_csv w) = Returned ()" by simp
  have la: "map (\<lambda>ax. map label (lines ax)) ?a = [filter (\<lambda>n. n \<noteq> ''TimeStep'') (columns t)]"
    by (simp add: labels_of_drawn)
  have lb: "map (\<lambda>ax. map label (lines ax)) ?b =
                 [filter (\<lambda>n. n \<in> set (columns t)) producers,
                  filter (\<lambda>n. n \<in> set (columns t)) herbivores,
                  filter (\<lambda>n. n \<in> set (columns t)) predators]"
    by (simp add: labels_of_drawn)
  from m la lb show "\<exists>a b. files (snd (main read_csv w)) =
                 (files w)(''population_dynamics_'' @ str_int (py_int (clock w)) @ ''.png'' \<mapsto> Image a,
                           ''trophic_levels_'' @ str_int (py_int (clock w)) @ ''.png'' \<mapsto> Image b) \<and>
               map (\<lambda>ax. map label (lines ax)) a = [filter (\<lambda>n. n \<noteq> ''TimeStep'') (columns t)] \<and>
               map (\<lambda>ax. map label (lines ax)) b =
                 [filter (\<lambda>n. n \<in> set (columns t)) producers,
                  filter (\<lambda>n. n \<in> set (columns t)) herbivores,
                  filter (\<lambda>n. n \<in> set (columns t)) predators]"
    by (intro exI [of _ ?a] exI [of _ ?b] conjI) simp_all
qed

lemma chart_names_differ:
  "ts \<noteq> ts' \<Longrightarrow>
     ''population_dynamics_'' @ str_int ts @ ''.png'' \<noteq>
       ''population_dynamics_'' @ str_int ts' @ ''.png'' \<and>
     ''trophic_levels_'' @ str_int ts @ ''.png'' \<noteq> ''trophic_levels_'' @ str_int ts' @ ''.png''"
  using str_int_inject [of ts ts'] by auto

lemma chart_labels_main:
  assumes "files w ''ecosystem_data.csv'' = Some c" "read_csv c = Inr t"
    and "loaded t" "0 < nrows t" "has_time t"
  shows "chart_labels (snd (main read_csv w))
           (''population_dynamics_'' @ str_int (py_int (clock w)) @ ''.png'') =
         [filter (\<lambda>n. n \<noteq> ''TimeStep'') (columns t)]"
  using main_success(2) [of w c read_csv t] assms by (auto simp: chart_labels_def)

lemma digit_chars:
  "char_of (48 :: nat) = CHR ''0''" "char_of (49 :: nat) = CHR ''1''"
  "char_of (50 :: nat) = CHR ''2''" "char_of (51 :: nat) = CHR ''3''"
  "char_of (52 :: nat) = CHR ''4''" "char_of (53 :: nat) = CHR ''5''"
  "char_of (54 :: nat) = CHR ''6''" "char_of (55 :: nat) = CHR ''7''"
  "char_of (56 :: nat) = CHR ''8''" "char_of (57 :: nat) = CHR ''9''"
  by code_simp+

lemma str_int_second: "str_int 1700000000 = ''1700000000''"
  by (simp add: str_int_def digits.simps digit_chars)

lemma example_world_second: "py_int (clock example_world) = 1700000000"
  by (simp add: py_int_def example_world_def floor_eq_iff)

lemma example_world_file:
  "files example_world ''ecosystem_data.csv'' = Some (Text ''TimeStep,Deer'')"
  by (simp add: example_world_def)

section \<open>The float mean of a column\<close>

lemma to_float_exact: "\<bar>n\<bar> < 2 ^ 53 \<Longrightarrow> to_float n = of_int n"
  by (simp add: to_float_def b64_int)

lemma float_sum_from:
  "\<bar>a\<bar> + sum_list (map abs cs) < 2 ^ 53 \<Longrightarrow>
     foldl (\<lambda>acc c. b64 (acc + to_float c)) (of_int a) cs = of_int (a + sum_list cs)"
proof (induction cs arbitrary: a)
  case Nil
  then show ?case by simp
next
  case (Cons c cs)
  have nn: "0 \<le> sum_list (map abs cs)" by (rule sum_list_nonneg) auto
  have c: "\<bar>c\<bar> < 2 ^ 53" using Cons.prems nn by simp
  have ac: "\<bar>a + c\<bar> < 2 ^ 53" using Cons.prems nn by simp
  have "b64 (of_int a + to_float c) = b64 (of_int (a + c))"
    by (simp add: to_float_exact [OF c])
  also have "\<dots> = of_int (a + c)" using ac by (rule b64_int)
  finally have step: "b64 (of_int a + to_float c) = of_int (a + c)" .
  have "\<bar>a + c\<bar> + sum_list (map abs cs) < 2 ^ 53" using Cons.prems by simp
  then have "foldl (\<lambda>acc c. b64 (acc + to_float c)) (of_int (a + c)) cs =
      of_int (a + c + sum_list cs)"
    by (rule Cons.IH)
  then show ?case by (simp add: step add.assoc)
qed

lemma float_sum_exact:
  "sum_list (map abs cs) < 2 ^ 53 \<Longrightarrow> float_sum cs = of_int (sum_list cs)"
  using float_sum_from [of 0 cs] by (simp add: float_sum_def)

lemma series_mean_exact:
  assumes "cs \<noteq> []" "sum_list (map abs cs) < 2 ^ 53" "length cs < 2 ^ 53"
  shows "series_mean cs = Some (b64 (of_int (sum_list cs) / of_int (int (length cs))))"
proof -
  have "\<bar>int (length cs)\<bar> < 2 ^ 53" using assms(3) by simp
  then have "to_float (int (length cs)) = of_int (int (length cs))" by (rule to_float_exact)
  then show ?thesis using assms(1) by (simp add: series_mean_def float_sum_exact [OF assms(2)])
qed

section \<open>Reading a printed number back\<close>

lemma digits_chars: "c \<in> set (digits n) \<Longrightarrow> \<exists>d::nat. d < 10 \<and> c = char_of (48 + d)"
proof (induction n rule: digits.induct)
  case (1 n)
  show ?case
  proof (cases "n < 10")
    case True
    with "1.prems" have "c = char_of (48 + n)" by (subst (asm) digits.simps) simp
    with True show ?thesis by blast
  next
    case False
    with "1.prems" have "c \<in> set (digits (n div 10)) \<or> c = char_of (48 + n mod 10)"
      by (subst (asm) digits.simps) auto
    then show ?thesis
    proof
      assume "c \<in> set (digits (n div 10))"
      with False show ?thesis using "1.IH" by blast
    next
      assume "c = char_of (48 + n mod 10)"
      moreover have "n mod 10 < 10" by simp
      ultimately show ?thesis by blast
    qed
  qed
qed

lemma digits_no_point: "CHR ''.'' \<notin> set (digits n)"
proof
  assume "CHR ''.'' \<in> set (digits n)"
  then obtain d :: nat where d: "d < 10" "CHR ''.'' = char_of (48 + d)"
    using digits_chars [of "CHR ''.''" n] by blast
  then have "of_char CHR ''.'' = (of_char (char_of (48 + d) :: char) :: nat)" by simp
  with d(1) show False by simp
qed

lemma digits_nonempty: "digits n \<noteq> []"
  by (subst digits.simps) simp

lemma read_nat_digits: "read_nat (digits n) = n"
  by (simp add: read_nat_def digits_value)

lemma read_int_str_int: "read_int (str_int i) = i"
proof (cases "i < 0")
  case True
  then show ?thesis by (simp add: read_int_def str_int_def read_nat_digits)
next
  case False
  obtain c ds where s: "digits (nat i) = c # ds"
    using digits_nonempty [of "nat i"] by (cases "digits (nat i)") auto
  then have "c \<in> set (digits (nat i))" by simp
  then have "c \<noteq> CHR ''-''" using digits_no_minus [of "nat i"] by auto
  with False s show ?thesis
    using read_nat_digits [of "nat i"] by (simp add: read_int_def str_int_def)
qed

lemma round_half_even_near: "\<bar>of_int (round_half_even x) - x\<bar> \<le> 1 / 2"
proof -
  have "of_int \<lfloor>x\<rfloor> \<le> x" "x < of_int \<lfloor>x\<rfloor> + 1" by linarith+
  then show ?thesis by (auto simp: round_half_even_def Let_def)
qed

lemma round_half_even_nonneg: "0 \<le> x \<Longrightarrow> 0 \<le> round_half_even x"
  by (auto simp: round_half_even_def Let_def)

lemma digits_small: "n < 10 \<Longrightarrow> digits n = [char_of (48 + n)]"
  by (subst digits.simps) simp

lemma read_decimal_body:
  "read_decimal (digits a @ CHR ''.'' # digits b) =
     of_nat a + of_nat b / 10 ^ length (digits b)"
proof -
  let ?s = "digits a @ CHR ''.'' # digits b"
  have p: "\<And>c. c \<in> set (digits a) \<Longrightarrow> c \<noteq> CHR ''.''"
    using digits_no_point [of a] by auto
  obtain c ds where s: "digits a = c # ds"
    using digits_nonempty [of a] by (cases "digits a") auto
  then have "c \<in> set (digits a)" by simp
  then have "c \<noteq> CHR ''-''" using digits_no_minus [of a] by auto
  then have neg: "\<not> (?s \<noteq> [] \<and> hd ?s = CHR ''-'')" by (simp add: s)
  have w: "takeWhile (\<lambda>c. c \<noteq> CHR ''.'') ?s = digits a"
    using p by (simp add: takeWhile_append2)
  have f: "drop 1 (dropWhile (\<lambda>c. c \<noteq> CHR ''.'') ?s) = digits b"
    using p by (simp add: dropWhile_append2)
  show ?thesis
    unfolding read_decimal_def Let_def using neg
    by (simp only: w f if_False read_nat_digits)
qed

lemma read_decimal_minus:
  "read_decimal (CHR ''-'' # digits a @ CHR ''.'' # digits b) =
     - (of_nat a + of_nat b / 10 ^ length (digits b))"
proof -
  let ?s = "digits a @ CHR ''.'' # digits b"
  have p: "\<And>c. c \<in> set (digits a) \<Longrightarrow> c \<noteq> CHR ''.''"
    using digits_no_point [of a] by auto
  have w: "takeWhile (\<lambda>c. c \<noteq> CHR ''.'') ?s = digits a"
    using p by (simp add: takeWhile_append2)
  have d: "dropWhile (\<lambda>c. c \<noteq> CHR ''.'') ?s = CHR ''.'' # digits b"
    using p by (simp add: dropWhile_append2)
  show ?thesis
    by (simp add: read_decimal_def Let_def w d read_nat_digits)
qed

lemma fmt_f_one_decimal:
  "fmt_f 1 (Some x) =
     (if x < 0 then ''-'' else '''') @
     digits (nat (round_half_even (\<bar>x\<bar> * 10)) div 10) @
     CHR ''.'' # digits (nat (round_half_even (\<bar>x\<bar> * 10)) mod 10)"
proof -
  have "length (digits (n mod 10)) = 1" for n
    by (simp add: digits_small)
  then show ?thesis by (simp add: fmt_f_def Let_def)
qed

lemma read_decimal_fmt_f: "\<bar>read_decimal (fmt_f 1 (Some x)) - x\<bar> \<le> 1 / 20"
proof -
  define r where "r = round_half_even (\<bar>x\<bar> * 10)"
  define t where "t = nat r"
  have r0: "0 \<le> r" unfolding r_def by (rule round_half_even_nonneg) simp
  then have tr: "rat_of_nat t = of_int r" by (simp add: t_def)
  have near: "\<bar>of_int r - \<bar>x\<bar> * 10\<bar> \<le> 1 / 2"
    unfolding r_def by (rule round_half_even_near)
  have l: "length (digits (t mod 10)) = 1" by (simp add: digits_small)
  have "t = 10 * (t div 10) + t mod 10" by simp
  then have "rat_of_nat t = 10 * of_nat (t div 10) + of_nat (t mod 10)"
    by (metis of_nat_add of_nat_mult of_nat_numeral)
  then have v: "rat_of_nat (t div 10) + of_nat (t mod 10) / 10 ^ length (digits (t mod 10)) =
      of_int r / 10"
    by (simp add: l tr [symmetric])
  show ?thesis
  proof (cases "x < 0")
    case True
    have "fmt_f 1 (Some x) = CHR ''-'' # digits (t div 10) @ CHR ''.'' # digits (t mod 10)"
      unfolding fmt_f_one_decimal r_def [symmetric] t_def [symmetric] using True by simp
    then have "read_decimal (fmt_f 1 (Some x)) = - (of_int r / 10)"
      by (simp only: read_decimal_minus v)
    moreover have "\<bar>- (of_int r / 10) - x\<bar> \<le> 1 / 20"
      using True near by linarith
    ultimately show ?thesis by (simp only:)
  next
    case False
    have "fmt_f 1 (Some x) = digits (t div 10) @ CHR ''.'' # digits (t mod 10)"
      unfolding fmt_f_one_decimal r_def [symmetric] t_def [symmetric] using False by simp
    then have "read_decimal (fmt_f 1 (Some x)) = of_int r / 10"
      by (simp only: read_decimal_body v)
    moreover have "\<bar>of_int r / 10 - x\<bar> \<le> 1 / 20"
      using False near by linarith
    ultimately show ?thesis by (simp only:)
  qed
qed

section \<open>The floats next to \<open>2^53\<close>\<close>

lemma round_half_even_tie: "even k \<Longrightarrow> round_half_even (of_int k + 1 / 2) = k"
proof -
  have "\<lfloor>rat_of_int k + 1 / 2\<rfloor> = k" by (simp add: floor_eq_iff)
  then show "even k \<Longrightarrow> round_half_even (of_int k + 1 / 2) = k"
    by (simp add: round_half_even_def Let_def)
qed

lemma exponent_huge: "exponent 9007199254740993 = 53"
  by (simp add: exponent_def bit_length.simps pow2_def)

lemma exponent_2_53: "exponent 9007199254740992 = 53"
  by (simp add: exponent_def bit_length.simps pow2_def)

lemma b64_huge: "b64 9007199254740993 = 9007199254740992"
proof -
  have e: "(9007199254740993 :: rat) * pow2 (- 1) = of_int 4503599627370496 + 1 / 2"
    by (simp add: pow2_def)
  have "round_half_even (9007199254740993 * pow2 (- 1)) = 4503599627370496"
    unfolding e by (rule round_half_even_tie) simp
  then show ?thesis
    by (simp add: b64_def exponent_huge pow2_def)
qed

lemma b64_2_53: "b64 9007199254740992 = 9007199254740992"
proof -
  have e: "(9007199254740992 :: rat) * pow2 (- 1) = of_int 4503599627370496"
    by (simp add: pow2_def)
  have "round_half_even (9007199254740992 * pow2 (- 1)) = 4503599627370496"
    unfolding e by (rule round_half_even_int)
  then show ?thesis
    by (simp add: b64_def exponent_2_53 pow2_def)
qed

lemma str_int_huge: "str_int 9007199254740993 = ''9007199254740993''"
  by (simp add: str_int_def digits.simps digit_chars)

lemma fmt_f_int_huge: "fmt_f_int 0 9007199254740993 = ''9007199254740992''"
proof -
  have "round_half_even (9007199254740992 :: rat) = 9007199254740992"
    using round_half_even_int [of 9007199254740992] by simp
  then show ?thesis
    by (simp add: fmt_f_int_def b64_huge fmt_f_def digits.simps digit_chars)
qed

lemma series_mean_huge: "series_mean [9007199254740993] = Some 9007199254740992"
proof -
  have "to_float 1 = 1" using to_float_exact [of 1] by simp
  then show ?thesis
    by (simp add: series_mean_def float_sum_def to_float_def b64_huge b64_2_53)
qed

lemma fmt_f_mean_huge: "fmt_f 1 (Some 9007199254740992) = ''9007199254740992.0''"
proof -
  have "round_half_even (90071992547409920 :: rat) = 90071992547409920"
    using round_half_even_int [of 90071992547409920] by simp
  then show ?thesis
    by (simp add: fmt_f_def digits.simps digit_chars)
qed

section \<open>A total that wraps around\<close>

text \<open>
  The first row of \<open>wrapping_table\<close> adds up to \<open>2^63\<close>, one more than a 64-bit signed
  integer holds: the row sum wraps around, and the report shows \<open>- 2^63\<close>.
\<close>

lemma exponent_2_63: "exponent 9223372036854775808 = 63"
  by (simp add: exponent_def bit_length.simps pow2_def)

lemma b64_minus_2_63: "b64 (- 9223372036854775808) = - 9223372036854775808"
proof -
  have e: "(9223372036854775808 :: rat) * pow2 (- 11) = of_int 4503599627370496"
    by (simp add: pow2_def)
  have "round_half_even (9223372036854775808 * pow2 (- 11)) = 4503599627370496"
    unfolding e by (rule round_half_even_int)
  then show ?thesis
    by (simp add: b64_def exponent_2_63 pow2_def)
qed

lemma fmt_f_int_minus_2_63: "fmt_f_int 0 (- 9223372036854775808) = ''-9223372036854775808''"
proof -
  have "round_half_even (9223372036854775808 :: rat) = 9223372036854775808"
    using round_half_even_int [of 9223372036854775808] by simp
  then show ?thesis
    by (simp add: fmt_f_int_def b64_minus_2_63 fmt_f_def digits.simps digit_chars)
qed

lemma wrapped_total:
  "loaded wrapping_table \<and> int64_cells wrapping_table \<and>
   drop 9 (stdout (snd (snd (print_statistics wrapping_table example_world)))) =
     [''Initial total population: -9223372036854775808'',
      ''Final total population: -9223372036854775808'', rule 80 CHR ''='' @ [newline]]"
proof -
  have l: "loaded wrapping_table" by (simp add: loaded_def wrapping_table_def)
  have r: "0 < nrows wrapping_table" by (simp add: wrapping_table_def)
  have h: "has_time wrapping_table" by (simp add: has_time_def columns_def wrapping_table_def)
  have c: "int64_cells wrapping_table" by (simp add: int64_cells_def wrapping_table_def)
  have s: "species_columns wrapping_table =
      [(''Deer'', [4611686018427387904]), (''Fox'', [4611686018427387904])]"
    by (simp add: species_columns_def wrapping_table_def)
  have w: "wrap64 9223372036854775808 = - 9223372036854775808" by (simp add: wrap64_def)
  have "drop 9 (stdout (snd (snd (print_statistics wrapping_table example_world)))) =
     [''Initial total population: -9223372036854775808'',
      ''Final total population: -9223372036854775808'', rule 80 CHR ''='' @ [newline]]"
    unfolding print_statistics_report [OF l r h]
    by (simp add: stdout_print_all s w fmt_f_int_minus_2_63 heading_def example_world_def)
  then show ?thesis using l c by simp
qed

section \<open>The claims\<close>

text \<open>
  Claim C1. For every loaded table with at least one row and fewer than \<open>2^53\<close> rows, in
  which the magnitudes of the cells of every column other than \<^verbatim>\<open>TimeStep\<close> add up
  to less than \<open>2^53\<close>: the report prints one line per column other than
  \<^verbatim>\<open>TimeStep\<close>, in table order and nothing else between the heading and the closing
  block, K lines for K such columns. The line of a column holds, each padded to its
  width, the column's name, the numerals of its first cell (initial) and of its last cell
  (final), the mean, and the numerals of its largest and of its smallest cell. The mean
  is the binary64 number nearest to the quotient of the sum of the cells by the number of
  rows, printed with one decimal. A printed numeral reads back as the cell, and a printed
  mean reads back within \<open>0.05\<close> of the binary64 number it shows. After the lines come
  the rule and the row count.

  The claim as stated, for every table, fails: the mean is accumulated in binary64, and
  a column whose only cell is \<open>2^53 + 1\<close> gets the mean \<^verbatim>\<open>9007199254740992.0\<close>,
  while its arithmetic mean shows as \<^verbatim>\<open>9007199254740993.0\<close>.
\<close>

theorem report_lines:
  assumes "loaded t" and "0 < nrows t" and "nrows t < 2 ^ 53"
    and "\<forall>c\<in>set (cols t). fst c \<noteq> ''TimeStep'' \<longrightarrow> sum_list (map abs (snd c)) < 2 ^ 53"
  shows "(\<exists>rest a b.
           stdout (snd (snd (print_statistics t w))) =
             stdout w @ heading @
             map (\<lambda>(name, cs).
                    ljust 20 name @ '' '' @ ljust 10 (str_int (hd cs)) @ '' '' @
                    ljust 10 (str_int (last cs)) @ '' '' @
                    ljust 10
                      (fmt_f 1 (Some (b64 (of_int (sum_list cs) / of_int (int (length cs)))))) @
                    '' '' @
                    ljust 10 (str_int (Max (set cs))) @ '' '' @ ljust 10 (str_int (Min (set cs))))
                 (filter (\<lambda>c. fst c \<noteq> ''TimeStep'') (cols t)) @
             (newline # rule 80 CHR ''='') # (''Total timesteps: '' @ str_int (int (nrows t))) # rest \<and>
           (rest = [] \<or>
            rest = [''Initial total population: '' @ a, ''Final total population: '' @ b,
                    rule 80 CHR ''='' @ [newline]])) \<and>
         (\<forall>i. read_int (str_int i) = i) \<and>
         (\<forall>x. \<bar>read_decimal (fmt_f 1 (Some x)) - x\<bar> \<le> 1 / 20)"
proof -
  let ?line = "\<lambda>(name, cs).
                    ljust 20 name @ '' '' @ ljust 10 (str_int (hd cs)) @ '' '' @
                    ljust 10 (str_int (last cs)) @ '' '' @
                    ljust 10
                      (fmt_f 1 (Some (b64 (of_int (sum_list cs) / of_int (int (length cs)))))) @
                    '' '' @
                    ljust 10 (str_int (Max (set cs))) @ '' '' @ ljust 10 (str_int (Min (set cs)))"
  have one: "render_line (summary c) = ?line c" if c: "c \<in> set (species_columns t)" for c
  proof -
    have m: "c \<in> set (cols t)" and n: "fst c \<noteq> ''TimeStep''"
      using c by (simp_all add: species_columns_def)
    have ne: "snd c \<noteq> []" using assms(1,2) m by (rule rows_nonempty)
    have "length (snd c) = nrows t" using assms(1) m by (rule loaded_length)
    then have len: "length (snd c) < 2 ^ 53" using assms(3) by simp
    have "sum_list (map abs (snd c)) < 2 ^ 53" using assms(4) m n by blast
    with ne have "series_mean (snd c) =
        Some (b64 (of_int (sum_list (snd c)) / of_int (int (length (snd c)))))"
      using len by (rule series_mean_exact)
    then show ?thesis
      by (simp add: render_line_def summary_def fmt_opt_int_def case_prod_unfold)
  qed
  have lines: "map (\<lambda>c. render_line (summary c)) (species_columns t) =
        map ?line (filter (\<lambda>c. fst c \<noteq> ''TimeStep'') (cols t))"
    unfolding species_columns_def [symmetric] using one by (intro map_cong refl)
  have "\<exists>rest a b.
           stdout (snd (snd (print_statistics t w))) =
             stdout w @ heading @
             map ?line (filter (\<lambda>c. fst c \<noteq> ''TimeStep'') (cols t)) @
             (newline # rule 80 CHR ''='') # (''Total timesteps: '' @ str_int (int (nrows t))) # rest \<and>
           (rest = [] \<or>
            rest = [''Initial total population: '' @ a, ''Final total population: '' @ b,
                    rule 80 CHR ''='' @ [newline]])"
  proof (cases "has_time t")
    case True
    show ?thesis
      unfolding lines [symmetric] print_statistics_report [OF assms(1,2) True]
      by (simp add: stdout_print_all)
  next
    case False
    show ?thesis
      unfolding lines [symmetric] print_statistics_no_time [OF assms(1,2) False]
      by (simp add: stdout_print_all)
  qed
  then show ?thesis using read_int_str_int read_decimal_fmt_f by blast
qed

theorem report_lines_witness:
  "loaded example_table \<and> 0 < nrows example_table \<and> nrows example_table < 2 ^ 53 \<and>
   list_all (\<lambda>c. sum_list (map abs (snd c)) < 2 ^ 53) (cols example_table) \<and>
   (\<exists>rest.
      stdout (snd (snd (print_statistics example_table example_world))) =
        heading @
        [''Deer                 10         11         9.8        12         7         '',
         ''Wildflowers          100        85         90.0       100        80        '',
         ''Fox                  2          2          2.8        4          2         '',
         ''UnknownCritter       1          6          1.4        6          0         '',
         newline # rule 80 CHR ''='', ''Total timesteps: 5''] @ rest) \<and>
   read_int ''-12'' = - 12 \<and> \<bar>read_decimal ''9.8'' - 49 / 5\<bar> \<le> 1 / 20"
proof -
  have r: "0 < nrows example_table" by (simp add: example_table_def)
  have n: "nrows example_table < 2 ^ 53" by (simp add: example_table_def)
  have b: "list_all (\<lambda>c. sum_list (map abs (snd c)) < 2 ^ 53) (cols example_table)"
    by (simp add: example_table_def)
  then have b': "\<forall>c\<in>set (cols example_table).
      fst c \<noteq> ''TimeStep'' \<longrightarrow> sum_list (map abs (snd c)) < 2 ^ 53"
    by (simp add: list_all_iff)
  have deer: "ljust 20 ''Deer'' @ '' '' @ ljust 10 (str_int 10) @ '' '' @
      ljust 10 (str_int 11) @ '' '' @ ljust 10 (fmt_f 1 (Some (b64 (49 / 5)))) @ '' '' @
      ljust 10 (str_int 12) @ '' '' @ ljust 10 (str_int 7) =
      ''Deer                 10         11         9.8        12         7         ''"
    by code_simp
  have flowers: "ljust 20 ''Wildflowers'' @ '' '' @ ljust 10 (str_int 100) @ '' '' @
      ljust 10 (str_int 85) @ '' '' @ ljust 10 (fmt_f 1 (Some (b64 90))) @ '' '' @
      ljust 10 (str_int 100) @ '' '' @ ljust 10 (str_int 80) =
      ''Wildflowers          100        85         90.0       100        80        ''"
    by code_simp
  have fox: "ljust 20 ''Fox'' @ '' '' @ ljust 10 (str_int 2) @ '' '' @
      ljust 10 (str_int 2) @ '' '' @ ljust 10 (fmt_f 1 (Some (b64 (14 / 5)))) @ '' '' @
      ljust 10 (str_int 4) @ '' '' @ ljust 10 (str_int 2) =
      ''Fox                  2          2          2.8        4          2         ''"
    by code_simp
  have critter: "ljust 20 ''UnknownCritter'' @ '' '' @ ljust 10 (str_int 1) @ '' '' @
      ljust 10 (str_int 6) @ '' '' @ ljust 10 (fmt_f 1 (Some (b64 (7 / 5)))) @ '' '' @
      ljust 10 (str_int 6) @ '' '' @ ljust 10 (str_int 0) =
      ''UnknownCritter       1          6          1.4        6          0         ''"
    by code_simp
  have five: "str_int 5 = ''5''" by code_simp
  have twelve: "str_int (- 12) = ''-12''" by code_simp
  have mean: "fmt_f 1 (Some (49 / 5)) = ''9.8''" by code_simp
  from report_lines [OF example_table_loaded r n b', of example_world]
  obtain rest where
    out: "stdout (snd (snd (print_statistics example_table example_world))) =
        stdout example_world @ heading @
        map (\<lambda>(name, cs).
               ljust 20 name @ '' '' @ ljust 10 (str_int (hd cs)) @ '' '' @
               ljust 10 (str_int (last cs)) @ '' '' @
               ljust 10
                 (fmt_f 1 (Some (b64 (of_int (sum_list cs) / of_int (int (length cs)))))) @
               '' '' @
               ljust 10 (str_int (Max (set cs))) @ '' '' @ ljust 10 (str_int (Min (set cs))))
            (filter (\<lambda>c. fst c \<noteq> ''TimeStep'') (cols example_table)) @
        (newline # rule 80 CHR ''='') #
        (''Total timesteps: '' @ str_int (int (nrows example_table))) # rest"
    and ri: "\<forall>i. read_int (str_int i) = i"
    and rd: "\<forall>x. \<bar>read_decimal (fmt_f 1 (Some x)) - x\<bar> \<le> 1 / 20"
    by (elim exE conjE)
  have "stdout (snd (snd (print_statistics example_table example_world))) =
        heading @
        [''Deer                 10         11         9.8        12         7         '',
         ''Wildflowers          100        85         90.0       100        80        '',
         ''Fox                  2          2          2.8        4          2         '',
         ''UnknownCritter       1          6          1.4        6          0         '',
         newline # rule 80 CHR ''='', ''Total timesteps: 5''] @ rest"
    unfolding out
    by (simp add: example_table_def example_world_def deer [simplified] flowers [simplified]
        fox [simplified] critter [simplified] five)
  moreover have "read_int ''-12'' = - 12" using ri [rule_format, of "- 12"] by (simp only: twelve)
  moreover have "\<bar>read_decimal ''9.8'' - 49 / 5\<bar> \<le> 1 / 20"
    using rd [rule_format, of "49 / 5"] by (simp only: mean)
  ultimately show ?thesis using example_table_loaded r n b by blast
qed

theorem float_mean_counterexample:
  "loaded huge_table \<and> 0 < nrows huge_table \<and>
   stdout (snd (snd (print_statistics huge_table example_world))) ! 5 =
     ''Deer                 9007199254740993 9007199254740993 9007199254740992.0 9007199254740993 9007199254740993'' \<and>
   cells huge_table ''Deer'' = [9007199254740993] \<and>
   fmt_f 1 (Some (of_int (sum_list (cells huge_table ''Deer'')) / of_int (int (nrows huge_table)))) =
     ''9007199254740993.0''"
proof -
  have l: "loaded huge_table" by (simp add: loaded_def huge_table_def)
  have r: "0 < nrows huge_table" by (simp add: huge_table_def)
  have h: "has_time huge_table" by (simp add: has_time_def columns_def huge_table_def)
  have s: "species_columns huge_table = [(''Deer'', [9007199254740993])]"
    by (simp add: species_columns_def huge_table_def)
  have c: "cells huge_table ''Deer'' = [9007199254740993]"
    by (simp add: cells_def huge_table_def)
  have sm: "summary (''Deer'', [9007199254740993]) =
      \<lparr>species = ''Deer'', initial = 9007199254740993, final = 9007199254740993,
       mean = Some 9007199254740992, maximum = Some 9007199254740993,
       minimum = Some 9007199254740993\<rparr>"
    by (simp add: summary_def series_mean_huge)
  have name: "ljust 20 ''Deer'' = ''Deer                ''" by code_simp
  have cell: "ljust 10 ''9007199254740993'' = ''9007199254740993''" by (simp add: ljust_def)
  have mean: "ljust 10 ''9007199254740992.0'' = ''9007199254740992.0''" by (simp add: ljust_def)
  have "render_line (summary (''Deer'', [9007199254740993])) =
      ljust 20 ''Deer'' @ '' '' @ ljust 10 (str_int 9007199254740993) @ '' '' @
      ljust 10 (str_int 9007199254740993) @ '' '' @
      ljust 10 (fmt_f 1 (Some 9007199254740992)) @ '' '' @
      ljust 10 (str_int 9007199254740993) @ '' '' @ ljust 10 (str_int 9007199254740993)"
    unfolding sm by (simp add: render_line_def fmt_opt_int_def)
  also have "\<dots> =
     ''Deer                 9007199254740993 9007199254740993 9007199254740992.0 9007199254740993 9007199254740993''"
    unfolding str_int_huge fmt_f_mean_huge name cell mean by simp
  finally have "stdout (snd (snd (print_statistics huge_table example_world))) ! 5 =
     ''Deer                 9007199254740993 9007199254740993 9007199254740992.0 9007199254740993 9007199254740993''"
    unfolding print_statistics_report [OF l r h]
    by (simp add: stdout_print_all s heading_def example_world_def)
  moreover have "round_half_even (90071992547409930 :: rat) = 90071992547409930"
    using round_half_even_int [of 90071992547409930] by simp
  then have "fmt_f 1 (Some (of_int (sum_list (cells huge_table ''Deer'')) /
        of_int (int (nrows huge_table)))) = ''9007199254740993.0''"
    unfolding c by (simp add: huge_table_def fmt_f_def digits.simps digit_chars)
  ultimately show ?thesis using l r c by simp
qed

text \<open>
  Claim C2. For every loaded table of 64-bit integer cells with at least one row and its
  time column, in which the first cells of the columns other than \<^verbatim>\<open>TimeStep\<close> add up
  to less than \<open>2^53\<close> in magnitude, and so do their last cells: the last lines of the
  report are the initial total, the final total and the closing rule; the initial total
  is printed as the decimal numeral of the sum of the first cells of the columns other
  than \<^verbatim>\<open>TimeStep\<close>, the final total as that of the sum of their last cells (each
  numeral reads back as the sum), and the time column's cell is in neither.

  The claim as stated, for every table, fails: the totals are printed through the float
  format, and a table whose only species cell is \<open>2^53 + 1\<close> gets the total
  \<^verbatim>\<open>9007199254740992\<close>.
\<close>

theorem report_totals:
  assumes "loaded t" and "0 < nrows t" and "has_time t" and "int64_cells t"
    and "\<bar>sum_list (map (\<lambda>c. hd (snd c)) (filter (\<lambda>c. fst c \<noteq> ''TimeStep'') (cols t)))\<bar> < 2 ^ 53"
    and "\<bar>sum_list (map (\<lambda>c. last (snd c)) (filter (\<lambda>c. fst c \<noteq> ''TimeStep'') (cols t)))\<bar> < 2 ^ 53"
  shows "\<exists>before.
           stdout (snd (snd (print_statistics t w))) =
             before @
             [''Initial total population: '' @
                str_int (sum_list (map (\<lambda>c. hd (snd c)) (filter (\<lambda>c. fst c \<noteq> ''TimeStep'') (cols t)))),
              ''Final total population: '' @
                str_int (sum_list (map (\<lambda>c. last (snd c)) (filter (\<lambda>c. fst c \<noteq> ''TimeStep'') (cols t)))),
              rule 80 CHR ''='' @ [newline]] \<and>
           read_int
             (str_int (sum_list (map (\<lambda>c. hd (snd c)) (filter (\<lambda>c. fst c \<noteq> ''TimeStep'') (cols t))))) =
             sum_list (map (\<lambda>c. hd (snd c)) (filter (\<lambda>c. fst c \<noteq> ''TimeStep'') (cols t))) \<and>
           read_int
             (str_int (sum_list (map (\<lambda>c. last (snd c)) (filter (\<lambda>c. fst c \<noteq> ''TimeStep'') (cols t))))) =
             sum_list (map (\<lambda>c. last (snd c)) (filter (\<lambda>c. fst c \<noteq> ''TimeStep'') (cols t)))"
proof -
  let ?i = "sum_list (map (\<lambda>c. hd (snd c)) (filter (\<lambda>c. fst c \<noteq> ''TimeStep'') (cols t)))"
  let ?f = "sum_list (map (\<lambda>c. last (snd c)) (filter (\<lambda>c. fst c \<noteq> ''TimeStep'') (cols t)))"
  have p: "(2 :: int) ^ 53 < 2 ^ 63" by simp
  have wi: "wrap64 ?i = ?i" using assms(5) p by (intro wrap64_small) linarith+
  have wf: "wrap64 ?f = ?f" using assms(6) p by (intro wrap64_small) linarith+
  have fi: "fmt_f_int 0 ?i = str_int ?i" using assms(5) by (rule fmt_f_int_exact)
  have ff: "fmt_f_int 0 ?f = str_int ?f" using assms(6) by (rule fmt_f_int_exact)
  have "stdout (snd (snd (print_statistics t w))) =
          (stdout w @ heading @ map (\<lambda>c. render_line (summary c)) (species_columns t) @
           [newline # rule 80 CHR ''='', ''Total timesteps: '' @ str_int (int (nrows t))]) @
          [''Initial total population: '' @ str_int ?i,
           ''Final total population: '' @ str_int ?f,
           rule 80 CHR ''='' @ [newline]]"
    unfolding print_statistics_report [OF assms(1-3)]
    by (simp add: stdout_print_all species_columns_def wi wf fi ff)
  then show ?thesis using read_int_str_int by blast
qed

theorem report_totals_witness:
  "loaded example_table \<and> 0 < nrows example_table \<and> has_time example_table \<and>
   int64_cells example_table \<and>
   \<bar>sum_list (map (\<lambda>c. hd (snd c))
        (filter (\<lambda>c. fst c \<noteq> ''TimeStep'') (cols example_table)))\<bar> < 2 ^ 53 \<and>
   \<bar>sum_list (map (\<lambda>c. last (snd c))
        (filter (\<lambda>c. fst c \<noteq> ''TimeStep'') (cols example_table)))\<bar> < 2 ^ 53 \<and>
   (\<exists>before.
      stdout (snd (snd (print_statistics example_table example_world))) =
        before @ [''Initial total population: 113'', ''Final total population: 104'',
                  rule 80 CHR ''='' @ [newline]]) \<and>
   read_int ''113'' = 113 \<and> read_int ''104'' = 104"
proof -
  have r: "0 < nrows example_table" by (simp add: example_table_def)
  have c: "int64_cells example_table" by (simp add: int64_cells_def example_table_def)
  have i: "sum_list (map (\<lambda>c. hd (snd c)) (filter (\<lambda>c. fst c \<noteq> ''TimeStep'') (cols example_table))) = 113"
    by (simp add: example_table_def)
  have f: "sum_list (map (\<lambda>c. last (snd c)) (filter (\<lambda>c. fst c \<noteq> ''TimeStep'') (cols example_table))) = 104"
    by (simp add: example_table_def)
  have bi: "\<bar>sum_list (map (\<lambda>c. hd (snd c))
        (filter (\<lambda>c. fst c \<noteq> ''TimeStep'') (cols example_table)))\<bar> < 2 ^ 53"
    unfolding i by simp
  have bf: "\<bar>sum_list (map (\<lambda>c. last (snd c))
        (filter (\<lambda>c. fst c \<noteq> ''TimeStep'') (cols example_table)))\<bar> < 2 ^ 53"
    unfolding f by simp
  from report_totals [OF example_table_loaded r example_table_has_time c bi bf, of example_world]
  have "(\<exists>before.
      stdout (snd (snd (print_statistics example_table example_world))) =
        before @ [''Initial total population: '' @ str_int 113,
                  ''Final total population: '' @ str_int 104,
                  rule 80 CHR ''='' @ [newline]]) \<and>
      read_int (str_int 113) = 113 \<and> read_int (str_int 104) = 104"
    unfolding i f by blast
  then have "(\<exists>before.
      stdout (snd (snd (print_statistics example_table example_world))) =
        before @ [''Initial total population: 113'', ''Final total population: 104'',
                  rule 80 CHR ''='' @ [newline]]) \<and>
      read_int ''113'' = 113 \<and> read_int ''104'' = 104"
    unfolding str_int_113 str_int_104 by simp
  with example_table_loaded r example_table_has_time c bi bf show ?thesis by blast
qed

theorem float_total_counterexample:
  "loaded huge_table \<and> 0 < nrows huge_table \<and> has_time huge_table \<and> int64_cells huge_table \<and>
   drop 8 (stdout (snd (snd (print_statistics huge_table example_world)))) =
     [''Initial total population: 9007199254740992'',
      ''Final total population: 9007199254740992'', rule 80 CHR ''='' @ [newline]] \<and>
   sum_list (map (\<lambda>c. hd (snd c)) (filter (\<lambda>c. fst c \<noteq> ''TimeStep'') (cols huge_table))) =
     9007199254740993 \<and>
   sum_list (map (\<lambda>c. last (snd c)) (filter (\<lambda>c. fst c \<noteq> ''TimeStep'') (cols huge_table))) =
     9007199254740993 \<and>
   str_int 9007199254740993 = ''9007199254740993''"
proof -
  have l: "loaded huge_table" by (simp add: loaded_def huge_table_def)
  have r: "0 < nrows huge_table" by (simp add: huge_table_def)
  have h: "has_time huge_table" by (simp add: has_time_def columns_def huge_table_def)
  have c: "int64_cells huge_table" by (simp add: int64_cells_def huge_table_def)
  have s: "species_columns huge_table = [(''Deer'', [9007199254740993])]"
    by (simp add: species_columns_def huge_table_def)
  have w: "wrap64 9007199254740993 = 9007199254740993" by (simp add: wrap64_def)
  have "drop 8 (stdout (snd (snd (print_statistics huge_table example_world)))) =
     [''Initial total population: 9007199254740992'',
      ''Final total population: 9007199254740992'', rule 80 CHR ''='' @ [newline]]"
    unfolding print_statistics_report [OF l r h]
    by (simp add: stdout_print_all s w fmt_f_int_huge heading_def example_world_def)
  moreover have
    "sum_list (map (\<lambda>c. hd (snd c)) (filter (\<lambda>c. fst c \<noteq> ''TimeStep'') (cols huge_table))) =
       9007199254740993"
    "sum_list (map (\<lambda>c. last (snd c)) (filter (\<lambda>c. fst c \<noteq> ''TimeStep'') (cols huge_table))) =
       9007199254740993"
    by (simp_all add: huge_table_def)
  ultimately show ?thesis using l r h c str_int_huge by simp
qed

text \<open>
  Claim C3. When the path names no file, \<^verbatim>\<open>load_data\<close> prints the message
  \<^verbatim>\<open>Error: <path> not found\<close> and exits with code 1; nothing else changes, so no file
  is written, and \<^verbatim>\<open>main\<close> ends there with the same exit code and the same files.
  When the path names a file, \<^verbatim>\<open>load_data\<close> does not exit: it raises what the parser
  raises or returns the parsed table after the \<^verbatim>\<open>Loaded\<close> line.
\<close>

theorem load_data_missing_file:
  "(files w path = None \<longrightarrow>
      load_data read_csv path w =
        (SystemExit 1, w\<lparr>stdout := stdout w @ [''Error: '' @ path @ '' not found'']\<rparr>) \<and>
      files (snd (load_data read_csv path w)) = files w) \<and>
   (files w ''ecosystem_data.csv'' = None \<longrightarrow>
      fst (main read_csv w) = SystemExit 1 \<and> files (snd (main read_csv w)) = files w) \<and>
   (\<forall>c. files w path = Some c \<longrightarrow>
      (\<forall>n. fst (load_data read_csv path w) \<noteq> SystemExit n) \<and>
      load_data read_csv path w =
        (case read_csv c of
           Inl e \<Rightarrow> (Raised e, w)
         | Inr data \<Rightarrow>
             (Returned data,
              w\<lparr>stdout := stdout w @
                 [''Loaded '' @ str_int (int (nrows data)) @ '' timesteps with '' @
                  str_int (int (length (columns data)) - 1) @ '' species'']\<rparr>)))"
  by (auto simp: load_data_def main_def print_def split: sum.splits)

theorem load_data_missing_file_witness:
  "files example_world ''missing.csv'' = None \<and>
   load_data (\<lambda>c. Inr example_table) ''missing.csv'' example_world =
     (SystemExit 1,
      example_world\<lparr>stdout := stdout example_world @ [''Error: missing.csv not found'']\<rparr>) \<and>
   files (snd (load_data (\<lambda>c. Inr example_table) ''missing.csv'' example_world)) =
     files example_world \<and>
   files (example_world\<lparr>files := Map.empty\<rparr>) ''ecosystem_data.csv'' = None \<and>
   fst (main (\<lambda>c. Inr example_table) (example_world\<lparr>files := Map.empty\<rparr>)) = SystemExit 1 \<and>
   files (snd (main (\<lambda>c. Inr example_table) (example_world\<lparr>files := Map.empty\<rparr>))) = Map.empty \<and>
   files example_world ''ecosystem_data.csv'' = Some (Text ''TimeStep,Deer'') \<and>
   fst (load_data (\<lambda>c. Inr example_table) ''ecosystem_data.csv'' example_world) =
     Returned example_table"
proof -
  have m: "files example_world ''missing.csv'' = None" by (simp add: example_world_def)
  have e: "files (example_world\<lparr>files := Map.empty\<rparr>) ''ecosystem_data.csv'' = None" by simp
  have p: "files example_world ''ecosystem_data.csv'' = Some (Text ''TimeStep,Deer'')"
    by (simp add: example_world_def)
  note a = load_data_missing_file [of example_world "''missing.csv''" "\<lambda>c. Inr example_table"]
  note b = load_data_missing_file
    [of "example_world\<lparr>files := Map.empty\<rparr>" "''missing.csv''" "\<lambda>c. Inr example_table"]
  note c = load_data_missing_file
    [of example_world "''ecosystem_data.csv''" "\<lambda>c. Inr example_table"]
  have 1: "load_data (\<lambda>c. Inr example_table) ''missing.csv'' example_world =
     (SystemExit 1,
      example_world\<lparr>stdout := stdout example_world @ [''Error: missing.csv not found'']\<rparr>)"
    using a m by simp
  have 2: "files (snd (load_data (\<lambda>c. Inr example_table) ''missing.csv'' example_world)) =
     files example_world"
    using a m by blast
  have 3: "fst (main (\<lambda>c. Inr example_table) (example_world\<lparr>files := Map.empty\<rparr>)) = SystemExit 1"
    "files (snd (main (\<lambda>c. Inr example_table) (example_world\<lparr>files := Map.empty\<rparr>))) = Map.empty"
    using b e by simp_all
  have 4: "fst (load_data (\<lambda>c. Inr example_table) ''ecosystem_data.csv'' example_world) =
     Returned example_table"
    using c p by simp
  from m 1 2 e 3 p 4 show ?thesis by blast
qed

text \<open>
  Claim C4. For every loaded table with its time column, the trophic-levels chart is
  saved without error and has three panels. A name labels a series of the producers panel
  exactly when it is a column of the table and one of Wildflowers, Berries, Aspen, Spruce;
  of the herbivores panel exactly when it is a column and one of Deer, Bunny, FieldMouse,
  GroundSquirrel, Chipmunk; of the predators panel exactly when it is a column and one of
  Fox, Coyote, BlackBear. A name in none of the three sets labels no series of any panel.
  Every series drawn has the cells of \<^verbatim>\<open>TimeStep\<close> as x values and the cells of the
  column it is labelled with as y values.
\<close>

theorem trophic_panels:
  assumes "loaded t" and "has_time t"
  shows "\<exists>p0 p1 p2.
           plot_trophic_levels t output w =
             (Returned (), t,
              w\<lparr>files := (files w)(output \<mapsto> Image [p0, p1, p2]),
                stdout := stdout w @ [''Saved: '' @ output], figures := []\<rparr>) \<and>
           (\<forall>n. n \<in> label ` set (lines p0) \<longleftrightarrow>
                  n \<in> set (columns t) \<and>
                  n \<in> {''Wildflowers'', ''Berries'', ''Aspen'', ''Spruce''}) \<and>
           (\<forall>n. n \<in> label ` set (lines p1) \<longleftrightarrow>
                  n \<in> set (columns t) \<and>
                  n \<in> {''Deer'', ''Bunny'', ''FieldMouse'', ''GroundSquirrel'', ''Chipmunk''}) \<and>
           (\<forall>n. n \<in> label ` set (lines p2) \<longleftrightarrow>
                  n \<in> set (columns t) \<and> n \<in> {''Fox'', ''Coyote'', ''BlackBear''}) \<and>
           (\<forall>n. n \<notin> {''Wildflowers'', ''Berries'', ''Aspen'', ''Spruce'', ''Deer'', ''Bunny'',
                        ''FieldMouse'', ''GroundSquirrel'', ''Chipmunk'', ''Fox'', ''Coyote'',
                        ''BlackBear''} \<longrightarrow>
                  n \<notin> label ` set (lines p0 @ lines p1 @ lines p2)) \<and>
           (\<forall>l\<in>set (lines p0 @ lines p1 @ lines p2).
              xdata l = cells t ''TimeStep'' \<and> ydata l = cells t (label l))"
proof -
  let ?l0 = "map (line_of t) (filter (\<lambda>n. n \<in> set (columns t)) producers)"
  let ?l1 = "map (line_of t) (filter (\<lambda>n. n \<in> set (columns t)) herbivores)"
  let ?l2 = "map (line_of t) (filter (\<lambda>n. n \<in> set (columns t)) predators)"
  let ?p0 = "\<lparr>lines = ?l0, title = ''Producers (Plants)'', xlabel = [], ylabel = ''Population'',
               legend = Some (legend_labels ?l0), grid = True\<rparr>"
  let ?p1 = "\<lparr>lines = ?l1, title = ''Primary Consumers (Herbivores)'', xlabel = [],
               ylabel = ''Population'', legend = Some (legend_labels ?l1), grid = True\<rparr>"
  let ?p2 = "\<lparr>lines = ?l2, title = ''Predators (Carnivores & Omnivores)'',
               xlabel = ''Time Step'', ylabel = ''Population'',
               legend = Some (legend_labels ?l2), grid = True\<rparr>"
  have r: "plot_trophic_levels t output w =
             (Returned (), t,
              w\<lparr>files := (files w)(output \<mapsto> Image [?p0, ?p1, ?p2]),
                stdout := stdout w @ [''Saved: '' @ output], figures := []\<rparr>)"
    using assms(2) by (rule plot_trophic_levels_chart)
  have a0: "\<forall>n. n \<in> label ` set (lines ?p0) \<longleftrightarrow>
                  n \<in> set (columns t) \<and>
                  n \<in> {''Wildflowers'', ''Berries'', ''Aspen'', ''Spruce''}"
    unfolding group_sets(1) [symmetric] using panel_labels [of _ t producers] by simp
  have a1: "\<forall>n. n \<in> label ` set (lines ?p1) \<longleftrightarrow>
                  n \<in> set (columns t) \<and>
                  n \<in> {''Deer'', ''Bunny'', ''FieldMouse'', ''GroundSquirrel'', ''Chipmunk''}"
    unfolding group_sets(2) [symmetric] using panel_labels [of _ t herbivores] by simp
  have a2: "\<forall>n. n \<in> label ` set (lines ?p2) \<longleftrightarrow>
                  n \<in> set (columns t) \<and> n \<in> {''Fox'', ''Coyote'', ''BlackBear''}"
    unfolding group_sets(3) [symmetric] using panel_labels [of _ t predators] by simp
  have none: "\<forall>n. n \<notin> {''Wildflowers'', ''Berries'', ''Aspen'', ''Spruce'', ''Deer'', ''Bunny'',
                        ''FieldMouse'', ''GroundSquirrel'', ''Chipmunk'', ''Fox'', ''Coyote'',
                        ''BlackBear''} \<longrightarrow>
                  n \<notin> label ` set (lines ?p0 @ lines ?p1 @ lines ?p2)"
  proof (intro allI impI)
    fix n :: string
    assume n: "n \<notin> {''Wildflowers'', ''Berries'', ''Aspen'', ''Spruce'', ''Deer'', ''Bunny'',
                        ''FieldMouse'', ''GroundSquirrel'', ''Chipmunk'', ''Fox'', ''Coyote'',
                        ''BlackBear''}"
    then have g: "n \<notin> set producers" "n \<notin> set herbivores" "n \<notin> set predators"
      by (simp_all add: group_sets)
    have "n \<notin> label ` set (lines ?p0)"
      using g(1) panel_labels [of n t producers] by simp
    moreover have "n \<notin> label ` set (lines ?p1)"
      using g(2) panel_labels [of n t herbivores] by simp
    moreover have "n \<notin> label ` set (lines ?p2)"
      using g(3) panel_labels [of n t predators] by simp
    ultimately show "n \<notin> label ` set (lines ?p0 @ lines ?p1 @ lines ?p2)"
      by (simp add: image_Un)
  qed
  have xs: "\<forall>l\<in>set (lines ?p0 @ lines ?p1 @ lines ?p2).
              xdata l = cells t ''TimeStep'' \<and> ydata l = cells t (label l)"
    by (auto simp: line_of_def)
  show ?thesis
    apply (rule exI [of _ ?p0])
    apply (rule exI [of _ ?p1])
    apply (rule exI [of _ ?p2])
    apply (intro conjI)
    apply (rule r)
    apply (rule a0)
    apply (rule a1)
    apply (rule a2)
    apply (rule none)
    apply (rule xs)
    done
qed

theorem trophic_panels_witness:
  "loaded example_table \<and> has_time example_table \<and>
   (\<exists>p0 p1 p2.
      plot_trophic_levels example_table ''trophic.png'' example_world =
        (Returned (), example_table,
         example_world\<lparr>files := (files example_world)(''trophic.png'' \<mapsto> Image [p0, p1, p2]),
           stdout := stdout example_world @ [''Saved: trophic.png''], figures := []\<rparr>) \<and>
      label ` set (lines p0) = {''Wildflowers''} \<and>
      label ` set (lines p1) = {''Deer''} \<and>
      label ` set (lines p2) = {''Fox''} \<and>
      ''UnknownCritter'' \<notin> label ` set (lines p0 @ lines p1 @ lines p2))"
proof -
  note panels = trophic_panels [OF example_table_loaded example_table_has_time,
      of "''trophic.png''" example_world]
  have c: "set (columns example_table) =
             {''TimeStep'', ''Deer'', ''Wildflowers'', ''Fox'', ''UnknownCritter''}"
    by (simp add: columns_def example_table_def)
  from panels show ?thesis
  proof (elim exE conjE)
    fix p0 p1 p2
    assume r: "plot_trophic_levels example_table ''trophic.png'' example_world =
        (Returned (), example_table,
         example_world\<lparr>files := (files example_world)(''trophic.png'' \<mapsto> Image [p0, p1, p2]),
           stdout := stdout example_world @ [''Saved: '' @ ''trophic.png''], figures := []\<rparr>)"
    and a0: "\<forall>n. n \<in> label ` set (lines p0) \<longleftrightarrow>
                  n \<in> set (columns example_table) \<and>
                  n \<in> {''Wildflowers'', ''Berries'', ''Aspen'', ''Spruce''}"
    and a1: "\<forall>n. n \<in> label ` set (lines p1) \<longleftrightarrow>
                  n \<in> set (columns example_table) \<and>
                  n \<in> {''Deer'', ''Bunny'', ''FieldMouse'', ''GroundSquirrel'', ''Chipmunk''}"
    and a2: "\<forall>n. n \<in> label ` set (lines p2) \<longleftrightarrow>
                  n \<in> set (columns example_table) \<and> n \<in> {''Fox'', ''Coyote'', ''BlackBear''}"
    and none: "\<forall>n. n \<notin> {''Wildflowers'', ''Berries'', ''Aspen'', ''Spruce'', ''Deer'', ''Bunny'',
                        ''FieldMouse'', ''GroundSquirrel'', ''Chipmunk'', ''Fox'', ''Coyote'',
                        ''BlackBear''} \<longrightarrow>
                  n \<notin> label ` set (lines p0 @ lines p1 @ lines p2)"
    have l0: "label ` set (lines p0) = {''Wildflowers''}"
      using a0 unfolding c by (intro set_eqI) auto
    have l1: "label ` set (lines p1) = {''Deer''}"
      using a1 unfolding c by (intro set_eqI) auto
    have l2: "label ` set (lines p2) = {''Fox''}"
      using a2 unfolding c by (intro set_eqI) auto
    have u: "''UnknownCritter'' \<notin> label ` set (lines p0 @ lines p1 @ lines p2)"
      using none by simp
    from r have r': "plot_trophic_levels example_table ''trophic.png'' example_world =
        (Returned (), example_table,
         example_world\<lparr>files := (files example_world)(''trophic.png'' \<mapsto> Image [p0, p1, p2]),
           stdout := stdout example_world @ [''Saved: trophic.png''], figures := []\<rparr>)"
      by simp
    show ?thesis
      apply (intro conjI example_table_loaded example_table_has_time)
      apply (rule exI [of _ p0])
      apply (rule exI [of _ p1])
      apply (rule exI [of _ p2])
      apply (intro conjI r' l0 l1 l2 u)
      done
  qed
qed

text \<open>
  Claim C5. For every loaded table with its time column, the all-populations chart is one
  set of axes with exactly one line series per column other than \<^verbatim>\<open>TimeStep\<close>, in
  table order: its x values are the cells of \<^verbatim>\<open>TimeStep\<close>, its y values the cells of
  the column, its label the column's name. The legend that is built on these axes has one
  entry per series whose label is not empty and does not start with an underscore, in
  drawing order; so every series has its entry when no column name is empty or starts
  with an underscore. For the columns \<^verbatim>\<open>TimeStep, Deer, Wildflowers, Fox,
  UnknownCritter\<close> these are 4 series.

  The claim as stated, a legend entry for every series of every table, fails on a table
  with the columns \<^verbatim>\<open>TimeStep, _Deer, Fox\<close>: the chart has two series and its legend
  the one entry \<^verbatim>\<open>Fox\<close>.
\<close>

theorem all_populations_series:
  assumes "loaded t" and "has_time t"
  shows "\<exists>ax. plot_all_populations t output w =
                (Returned (), t,
                 w\<lparr>files := (files w)(output \<mapsto> Image [ax]),
                   stdout := stdout w @ [''Saved: '' @ output], figures := []\<rparr>) \<and>
              lines ax =
                map (\<lambda>(name, cs).
                       \<lparr>xdata = cells t ''TimeStep'', ydata = cs, label = name, linewidth = 2\<rparr>)
                    (filter (\<lambda>c. fst c \<noteq> ''TimeStep'') (cols t)) \<and>
              legend ax =
                Some (filter (\<lambda>n. n \<noteq> [] \<and> hd n \<noteq> CHR ''_'') (map label (lines ax))) \<and>
              ((\<forall>n\<in>set (columns t). n \<noteq> [] \<and> hd n \<noteq> CHR ''_'') \<longrightarrow>
                 legend ax = Some (map label (lines ax))) \<and>
              (columns t = [''TimeStep'', ''Deer'', ''Wildflowers'', ''Fox'', ''UnknownCritter''] \<longrightarrow>
                 length (lines ax) = 4)"
proof -
  let ?ns = "filter (\<lambda>n. n \<noteq> ''TimeStep'') (columns t)"
  let ?ax = "\<lparr>lines = map (line_of t) ?ns,
              title = ''Ecosystem Population Dynamics (All Species)'',
              xlabel = ''Time Step'', ylabel = ''Population Count'',
              legend = Some (legend_labels (map (line_of t) ?ns)), grid = True\<rparr>"
  have "plot_all_populations t output w =
                (Returned (), t,
                 w\<lparr>files := (files w)(output \<mapsto> Image [?ax]),
                   stdout := stdout w @ [''Saved: '' @ output], figures := []\<rparr>)"
    using assms(2) by (rule plot_all_populations_chart)
  moreover have "lines ?ax =
                map (\<lambda>(name, cs).
                       \<lparr>xdata = cells t ''TimeStep'', ydata = cs, label = name, linewidth = 2\<rparr>)
                    (filter (\<lambda>c. fst c \<noteq> ''TimeStep'') (cols t))"
    using lines_of_columns [OF assms(1), of "\<lambda>n. n \<noteq> ''TimeStep''"] by simp
  moreover have "legend ?ax =
      Some (filter (\<lambda>n. n \<noteq> [] \<and> hd n \<noteq> CHR ''_'') (map label (lines ?ax)))"
    by (simp add: legend_labels_def)
  moreover have "(\<forall>n\<in>set (columns t). n \<noteq> [] \<and> hd n \<noteq> CHR ''_'') \<longrightarrow>
                 legend ?ax = Some (map label (lines ?ax))"
  proof
    assume a: "\<forall>n\<in>set (columns t). n \<noteq> [] \<and> hd n \<noteq> CHR ''_''"
    have "filter (\<lambda>n. n \<noteq> [] \<and> hd n \<noteq> CHR ''_'') ?ns = ?ns"
      using a by (intro filter_True) simp
    then have "legend_labels (map (line_of t) ?ns) = ?ns"
      unfolding legend_labels_def labels_of_lines .
    then show "legend ?ax = Some (map label (lines ?ax))"
      by (simp only: axes.simps labels_of_lines)
  qed
  moreover have "columns t = [''TimeStep'', ''Deer'', ''Wildflowers'', ''Fox'', ''UnknownCritter''] \<longrightarrow>
                 length (lines ?ax) = 4"
    by simp
  ultimately show ?thesis by blast
qed

theorem all_populations_series_witness:
  "loaded example_table \<and> has_time example_table \<and>
   (\<exists>ax. plot_all_populations example_table ''all.png'' example_world =
            (Returned (), example_table,
             example_world\<lparr>files := (files example_world)(''all.png'' \<mapsto> Image [ax]),
               stdout := stdout example_world @ [''Saved: all.png''], figures := []\<rparr>) \<and>
          map label (lines ax) = [''Deer'', ''Wildflowers'', ''Fox'', ''UnknownCritter''] \<and>
          legend ax = Some [''Deer'', ''Wildflowers'', ''Fox'', ''UnknownCritter''] \<and>
          length (lines ax) = 4)"
proof -
  from all_populations_series [OF example_table_loaded example_table_has_time,
      of "''all.png''" example_world]
  obtain ax where
    r: "plot_all_populations example_table ''all.png'' example_world =
            (Returned (), example_table,
             example_world\<lparr>files := (files example_world)(''all.png'' \<mapsto> Image [ax]),
               stdout := stdout example_world @ [''Saved: '' @ ''all.png''], figures := []\<rparr>)"
    and l: "lines ax =
                map (\<lambda>(name, cs).
                       \<lparr>xdata = cells example_table ''TimeStep'', ydata = cs, label = name,
                        linewidth = 2\<rparr>)
                    (filter (\<lambda>c. fst c \<noteq> ''TimeStep'') (cols example_table))"
    and g: "(\<forall>n\<in>set (columns example_table). n \<noteq> [] \<and> hd n \<noteq> CHR ''_'') \<longrightarrow>
            legend ax = Some (map label (lines ax))"
    and n: "columns example_table =
              [''TimeStep'', ''Deer'', ''Wildflowers'', ''Fox'', ''UnknownCritter''] \<longrightarrow>
            length (lines ax) = 4"
    by (elim exE conjE)
  have c: "columns example_table = [''TimeStep'', ''Deer'', ''Wildflowers'', ''Fox'', ''UnknownCritter'']"
    by (simp add: columns_def example_table_def)
  with n have 4: "length (lines ax) = 4" by simp
  have m: "map label (lines ax) = [''Deer'', ''Wildflowers'', ''Fox'', ''UnknownCritter'']"
    unfolding l by (simp add: example_table_def)
  have "\<forall>n\<in>set (columns example_table). n \<noteq> [] \<and> hd n \<noteq> CHR ''_''"
    unfolding c by simp
  with g m have "legend ax = Some [''Deer'', ''Wildflowers'', ''Fox'', ''UnknownCritter'']"
    by simp
  with r m 4 example_table_loaded example_table_has_time show ?thesis
    by (intro conjI exI [of _ ax]) simp_all
qed

theorem underscore_legend_counterexample:
  "loaded underscore_table \<and> has_time underscore_table \<and>
   chart_labels (snd (snd (plot_all_populations underscore_table ''all.png'' example_world)))
     ''all.png'' = [[''_Deer'', ''Fox'']] \<and>
   chart_legends (snd (snd (plot_all_populations underscore_table ''all.png'' example_world)))
     ''all.png'' = [Some [''Fox'']]"
proof -
  have l: "loaded underscore_table" by (simp add: loaded_def underscore_table_def)
  have h: "has_time underscore_table"
    by (simp add: has_time_def columns_def underscore_table_def)
  have c: "columns underscore_table = [''TimeStep'', ''_Deer'', ''Fox'']"
    by (simp add: columns_def underscore_table_def)
  have "chart_labels (snd (snd (plot_all_populations underscore_table ''all.png'' example_world)))
     ''all.png'' = [[''_Deer'', ''Fox'']]"
    by (simp add: chart_labels_all [OF h] c)
  moreover have
    "chart_legends (snd (snd (plot_all_populations underscore_table ''all.png'' example_world)))
     ''all.png'' = [Some [''Fox'']]"
    by (simp add: plot_all_populations_chart [OF h] chart_legends_def legend_labels_def c
        label_line_of)
  ultimately show ?thesis using l h by simp
qed

text \<open>
  Claim C6, as amended. Column order is the order of the table and is kept by the report
  and by the all-populations chart: for every loaded table with rows and its time column,
  the species lines are printed in table column order after the heading, and the series of
  the all-populations chart are drawn in table column order. Each panel of the
  trophic-levels chart draws its series in the order of the program's list for that panel
  (Wildflowers, Berries, Aspen, Spruce; Deer, Bunny, FieldMouse, GroundSquirrel, Chipmunk;
  Fox, Coyote, BlackBear), restricted to the names the table has.

  The claim as stated, that the series of each panel are drawn in table column order,
  fails on a table with the columns \<^verbatim>\<open>TimeStep, Spruce, Wildflowers\<close>: the producers
  panel draws Wildflowers first.
\<close>

theorem output_order:
  assumes "loaded t" and "0 < nrows t" and "has_time t"
  shows "(\<exists>post.
            stdout (snd (snd (print_statistics t w))) =
              stdout w @ heading @
              map (\<lambda>c. render_line (summary c)) (filter (\<lambda>c. fst c \<noteq> ''TimeStep'') (cols t)) @
              post) \<and>
         map (\<lambda>c. species (summary c)) (filter (\<lambda>c. fst c \<noteq> ''TimeStep'') (cols t)) =
           filter (\<lambda>n. n \<noteq> ''TimeStep'') (columns t) \<and>
         chart_labels (snd (snd (plot_all_populations t output w))) output =
           [filter (\<lambda>n. n \<noteq> ''TimeStep'') (columns t)] \<and>
         chart_labels (snd (snd (plot_trophic_levels t output w))) output =
           [filter (\<lambda>n. n \<in> set (columns t)) [''Wildflowers'', ''Berries'', ''Aspen'', ''Spruce''],
            filter (\<lambda>n. n \<in> set (columns t))
              [''Deer'', ''Bunny'', ''FieldMouse'', ''GroundSquirrel'', ''Chipmunk''],
            filter (\<lambda>n. n \<in> set (columns t)) [''Fox'', ''Coyote'', ''BlackBear'']]"
proof (intro conjI)
  show "\<exists>post.
            stdout (snd (snd (print_statistics t w))) =
              stdout w @ heading @
              map (\<lambda>c. render_line (summary c)) (filter (\<lambda>c. fst c \<noteq> ''TimeStep'') (cols t)) @
              post"
    by (simp add: print_statistics_report [OF assms] stdout_print_all species_columns_def)
  show "map (\<lambda>c. species (summary c)) (filter (\<lambda>c. fst c \<noteq> ''TimeStep'') (cols t)) =
           filter (\<lambda>n. n \<noteq> ''TimeStep'') (columns t)"
    by (simp add: summary_def columns_def filter_map comp_def)
  show "chart_labels (snd (snd (plot_all_populations t output w))) output =
           [filter (\<lambda>n. n \<noteq> ''TimeStep'') (columns t)]"
    using assms(3) by (rule chart_labels_all)
  show "chart_labels (snd (snd (plot_trophic_levels t output w))) output =
           [filter (\<lambda>n. n \<in> set (columns t)) [''Wildflowers'', ''Berries'', ''Aspen'', ''Spruce''],
            filter (\<lambda>n. n \<in> set (columns t))
              [''Deer'', ''Bunny'', ''FieldMouse'', ''GroundSquirrel'', ''Chipmunk''],
            filter (\<lambda>n. n \<in> set (columns t)) [''Fox'', ''Coyote'', ''BlackBear'']]"
    using chart_labels_trophic [OF assms(3), of "output" w]
    by (simp only: producers_def herbivores_def predators_def)
qed

theorem output_order_witness:
  "loaded shuffled_table \<and> 0 < nrows shuffled_table \<and> has_time shuffled_table \<and>
   chart_labels (snd (snd (plot_all_populations shuffled_table ''all.png'' example_world)))
     ''all.png'' = [[''Spruce'', ''Wildflowers'']] \<and>
   chart_labels (snd (snd (plot_trophic_levels shuffled_table ''all.png'' example_world)))
     ''all.png'' = [[''Wildflowers'', ''Spruce''], [], []] \<and>
   map (\<lambda>c. species (summary c)) (filter (\<lambda>c. fst c \<noteq> ''TimeStep'') (cols shuffled_table)) =
     [''Spruce'', ''Wildflowers'']"
proof -
  have r: "0 < nrows shuffled_table" by (simp add: shuffled_table_def)
  note o = output_order [OF shuffled_table_loaded r shuffled_table_has_time,
      of example_world "''all.png''"]
  have 1: "chart_labels (snd (snd (plot_all_populations shuffled_table ''all.png'' example_world)))
     ''all.png'' = [[''Spruce'', ''Wildflowers'']]"
    using o by (simp add: shuffled_table_columns)
  have 2: "chart_labels (snd (snd (plot_trophic_levels shuffled_table ''all.png'' example_world)))
     ''all.png'' = [[''Wildflowers'', ''Spruce''], [], []]"
    using o by (simp add: shuffled_table_columns)
  have 3: "map (\<lambda>c. species (summary c)) (filter (\<lambda>c. fst c \<noteq> ''TimeStep'') (cols shuffled_table)) =
     [''Spruce'', ''Wildflowers'']"
    using o by (simp add: shuffled_table_columns)
  show ?thesis
    by (intro conjI shuffled_table_loaded r shuffled_table_has_time 1 2 3)
qed

theorem trophic_order_counterexample:
  "columns shuffled_table = [''TimeStep'', ''Spruce'', ''Wildflowers''] \<and>
   chart_labels (snd (snd (plot_trophic_levels shuffled_table ''trophic.png'' example_world)))
     ''trophic.png'' = [[''Wildflowers'', ''Spruce''], [], []]"
  by (simp add: chart_labels_trophic [OF shuffled_table_has_time] shuffled_table_columns
      producers_def herbivores_def predators_def)

text \<open>
  Claim C7, as amended. A run that loads a table with rows and its time column returns
  after writing exactly two files, \<^verbatim>\<open>population_dynamics_<t>.png\<close> and
  \<^verbatim>\<open>trophic_levels_<t>.png\<close>, where \<open>t\<close> is the wall-clock reading in whole seconds
  (\<^verbatim>\<open>int(time.time())\<close>). Whatever a run does, it leaves the chart files named for
  every other second as they were: two runs whose readings differ in whole seconds do not
  overwrite each other's charts.

  The claim as stated, that any two consecutive runs have different timestamps, fails
  for two runs within one second: both write to the same two names, and the charts of
  the first run are replaced by those of the second.
\<close>

theorem chart_files_by_second:
  "(files w ''ecosystem_data.csv'' = Some c \<and> read_csv c = Inr t \<and> loaded t \<and> 0 < nrows t \<and>
    has_time t \<longrightarrow>
      fst (main read_csv w) = Returned () \<and>
      (\<exists>a b. files (snd (main read_csv w)) =
         (files w)(''population_dynamics_'' @ str_int (py_int (clock w)) @ ''.png'' \<mapsto> Image a,
                   ''trophic_levels_'' @ str_int (py_int (clock w)) @ ''.png'' \<mapsto> Image b))) \<and>
   (\<forall>ts. ts \<noteq> py_int (clock w) \<longrightarrow>
      files (snd (main read_csv w)) (''population_dynamics_'' @ str_int ts @ ''.png'') =
        files w (''population_dynamics_'' @ str_int ts @ ''.png'') \<and>
      files (snd (main read_csv w)) (''trophic_levels_'' @ str_int ts @ ''.png'') =
        files w (''trophic_levels_'' @ str_int ts @ ''.png''))"
proof (intro conjI impI allI)
  assume a: "files w ''ecosystem_data.csv'' = Some c \<and> read_csv c = Inr t \<and> loaded t \<and>
    0 < nrows t \<and> has_time t"
  then show "fst (main read_csv w) = Returned ()"
    by (intro main_success(1) [of w c read_csv t]) simp_all
  from a have "\<exists>a b. files (snd (main read_csv w)) =
                 (files w)(''population_dynamics_'' @ str_int (py_int (clock w)) @ ''.png'' \<mapsto> Image a,
                           ''trophic_levels_'' @ str_int (py_int (clock w)) @ ''.png'' \<mapsto> Image b) \<and>
               map (\<lambda>ax. map label (lines ax)) a = [filter (\<lambda>n. n \<noteq> ''TimeStep'') (columns t)] \<and>
               map (\<lambda>ax. map label (lines ax)) b =
                 [filter (\<lambda>n. n \<in> set (columns t)) producers,
                  filter (\<lambda>n. n \<in> set (columns t)) herbivores,
                  filter (\<lambda>n. n \<in> set (columns t)) predators]"
    by (intro main_success(2) [of w c read_csv t]) simp_all
  then show "\<exists>a b. files (snd (main read_csv w)) =
         (files w)(''population_dynamics_'' @ str_int (py_int (clock w)) @ ''.png'' \<mapsto> Image a,
                   ''trophic_levels_'' @ str_int (py_int (clock w)) @ ''.png'' \<mapsto> Image b)"
    by blast
next
  fix ts assume ts: "ts \<noteq> py_int (clock w)"
  note frame = touches_main [of w read_csv, unfolded touches_only_def, THEN conjunct2, rule_format]
  show "files (snd (main read_csv w)) (''population_dynamics_'' @ str_int ts @ ''.png'') =
        files w (''population_dynamics_'' @ str_int ts @ ''.png'')"
    using chart_names_differ [OF ts] by (intro frame) simp
  show "files (snd (main read_csv w)) (''trophic_levels_'' @ str_int ts @ ''.png'') =
        files w (''trophic_levels_'' @ str_int ts @ ''.png'')"
    using chart_names_differ [OF ts] by (intro frame) simp
qed

theorem chart_files_by_second_witness:
  "files example_world ''ecosystem_data.csv'' = Some (Text ''TimeStep,Deer'') \<and>
   loaded example_table \<and> 0 < nrows example_table \<and> has_time example_table \<and>
   fst (main (\<lambda>c. Inr example_table) example_world) = Returned () \<and>
   (\<exists>a b. files (snd (main (\<lambda>c. Inr example_table) example_world)) =
      (files example_world)(''population_dynamics_1700000000.png'' \<mapsto> Image a,
                            ''trophic_levels_1700000000.png'' \<mapsto> Image b)) \<and>
   1700000001 \<noteq> py_int (clock example_world) \<and>
   files (snd (main (\<lambda>c. Inr example_table) example_world))
     (''population_dynamics_'' @ str_int 1700000001 @ ''.png'') =
   files example_world (''population_dynamics_'' @ str_int 1700000001 @ ''.png'')"
proof -
  have r: "0 < nrows example_table" by (simp add: example_table_def)
  note t = chart_files_by_second [of example_world "Text ''TimeStep,Deer''"
      "\<lambda>c. Inr example_table" example_table]
  have h: "files example_world ''ecosystem_data.csv'' = Some (Text ''TimeStep,Deer'') \<and>
      (\<lambda>c. Inr example_table) (Text ''TimeStep,Deer'') = Inr example_table \<and>
      loaded example_table \<and> 0 < nrows example_table \<and> has_time example_table"
    using example_world_file example_table_loaded r example_table_has_time by simp
  from t h have 1: "fst (main (\<lambda>c. Inr example_table) example_world) = Returned ()"
    by blast
  from t h have "\<exists>a b. files (snd (main (\<lambda>c. Inr example_table) example_world)) =
      (files example_world)
        (''population_dynamics_'' @ str_int (py_int (clock example_world)) @ ''.png'' \<mapsto> Image a,
         ''trophic_levels_'' @ str_int (py_int (clock example_world)) @ ''.png'' \<mapsto> Image b)"
    by blast
  then have 2: "\<exists>a b. files (snd (main (\<lambda>c. Inr example_table) example_world)) =
      (files example_world)(''population_dynamics_1700000000.png'' \<mapsto> Image a,
                            ''trophic_levels_1700000000.png'' \<mapsto> Image b)"
    by (simp add: example_world_second str_int_second)
  have 3: "1700000001 \<noteq> py_int (clock example_world)" by (simp add: example_world_second)
  from t 3 have 4: "files (snd (main (\<lambda>c. Inr example_table) example_world))
     (''population_dynamics_'' @ str_int 1700000001 @ ''.png'') =
   files example_world (''population_dynamics_'' @ str_int 1700000001 @ ''.png'')"
    by blast
  show ?thesis
    by (intro conjI example_world_file example_table_loaded r example_table_has_time 1 2 3 4)
qed

theorem same_second_counterexample:
  "clock example_world < 17000000009 / 10 \<and>
   chart_labels (snd (main (\<lambda>c. Inr example_table) example_world))
     ''population_dynamics_1700000000.png'' =
     [[''Deer'', ''Wildflowers'', ''Fox'', ''UnknownCritter'']] \<and>
   chart_labels
     (snd (main (\<lambda>c. Inr shuffled_table)
        ((snd (main (\<lambda>c. Inr example_table) example_world))\<lparr>clock := 17000000009 / 10\<rparr>)))
     ''population_dynamics_1700000000.png'' =
     [[''Spruce'', ''Wildflowers'']]"
proof -
  let ?w1 = "snd (main (\<lambda>c. Inr example_table) example_world)"
  let ?w2 = "?w1\<lparr>clock := 17000000009 / 10\<rparr>"
  have r: "0 < nrows example_table" "0 < nrows shuffled_table"
    by (simp_all add: example_table_def shuffled_table_def)
  have 1: "chart_labels ?w1 ''population_dynamics_1700000000.png'' =
     [[''Deer'', ''Wildflowers'', ''Fox'', ''UnknownCritter'']]"
    using chart_labels_main [of example_world "Text ''TimeStep,Deer''"
        "\<lambda>c. Inr example_table" example_table, OF example_world_file refl
        example_table_loaded r(1) example_table_has_time]
    by (simp add: example_world_second str_int_second columns_def example_table_def)
  have "files ?w1 ''ecosystem_data.csv'' = files example_world ''ecosystem_data.csv''"
    using touches_main [of example_world "\<lambda>c. Inr example_table"]
    by (simp add: touches_only_def example_world_second str_int_second)
  then have f: "files ?w2 ''ecosystem_data.csv'' = Some (Text ''TimeStep,Deer'')"
    by (simp add: example_world_file)
  have c: "py_int (clock ?w2) = 1700000000" by (simp add: py_int_def floor_eq_iff)
  have 2: "chart_labels (snd (main (\<lambda>c. Inr shuffled_table) ?w2))
     ''population_dynamics_1700000000.png'' = [[''Spruce'', ''Wildflowers'']]"
    using chart_labels_main [of ?w2 "Text ''TimeStep,Deer''" "\<lambda>c. Inr shuffled_table"
        shuffled_table, OF f refl shuffled_table_loaded r(2) shuffled_table_has_time]
    unfolding c by (simp add: str_int_second shuffled_table_columns)
  have 0: "clock example_world < 17000000009 / 10" by (simp add: example_world_def)
  from 0 1 2 show ?thesis by (intro conjI)
qed

text \<open>
  Claim C8. The report and both plotting operations leave the table they are passed as it
  was, however they end, and so does their sequence as \<^verbatim>\<open>main\<close> runs it.
\<close>

theorem table_unchanged:
  "fst (snd (print_statistics t w)) = t \<and>
   fst (snd (plot_all_populations t output w)) = t \<and>
   fst (snd (plot_trophic_levels t output w)) = t \<and>
   fst (snd (and_then (print_statistics t w)
               (\<lambda>data w. and_then (plot_all_populations data output w)
                  (\<lambda>data w. plot_trophic_levels data output' w)))) = t"
proof -
  have s: "fst (snd (print_statistics t w)) = t" for w
    unfolding print_statistics_def
    by (intro and_then_keeps stats_loop_keeps print_total_keeps) simp
  have a: "fst (snd (plot_all_populations t out w)) = t" for w out
    unfolding plot_all_populations_def
    by (intro and_then_keeps plot_all_loop_keeps) simp
  have p: "fst (snd (plot_trophic_levels t out w)) = t" for w out
    unfolding plot_trophic_levels_def
    by (intro and_then_keeps plot_group_keeps) simp
  show ?thesis
    by (intro conjI and_then_keeps s a p)
qed

theorem table_unchanged_witness:
  "fst (snd (print_statistics example_table example_world)) = example_table \<and>
   fst (snd (plot_all_populations example_table ''a.png'' example_world)) = example_table \<and>
   fst (snd (plot_trophic_levels example_table ''a.png'' example_world)) = example_table \<and>
   fst (snd (and_then (print_statistics example_table example_world)
               (\<lambda>data w. and_then (plot_all_populations data ''a.png'' w)
                  (\<lambda>data w. plot_trophic_levels data ''b.png'' w)))) = example_table"
  by (rule table_unchanged)

text \<open>
  Claim C9. On a loaded table without rows the report ends with the out-of-bounds error;
  when the table has a column other than \<^verbatim>\<open>TimeStep\<close>, the error comes from the
  first such column, before any species line is printed. On a loaded table with at least
  one row the report never ends with that error.
\<close>

theorem report_needs_rows:
  assumes "loaded t"
  shows "(nrows t = 0 \<longrightarrow> fst (print_statistics t w) = Raised IndexError) \<and>
         (nrows t = 0 \<and> (\<exists>c\<in>set (cols t). fst c \<noteq> ''TimeStep'') \<longrightarrow>
            print_statistics t w = (Raised IndexError, t, print_all heading w)) \<and>
         (0 < nrows t \<longrightarrow> fst (print_statistics t w) \<noteq> Raised IndexError)"
proof (intro conjI impI)
  assume "nrows t = 0"
  with assms show "fst (print_statistics t w) = Raised IndexError"
    by (rule print_statistics_no_rows)
next
  assume a: "nrows t = 0 \<and> (\<exists>c\<in>set (cols t). fst c \<noteq> ''TimeStep'')"
  then have "\<forall>c\<in>set (cols t). snd c = []"
    using assms loaded_length [of t] by auto
  then have "stats_loop t (map fst (cols t)) w' = (Raised IndexError, t, w')" for w'
    using a assms by (intro stats_loop_no_rows) (auto simp: loaded_distinct)
  then show "print_statistics t w = (Raised IndexError, t, print_all heading w)"
    by (simp add: print_statistics_def and_then_def columns_def)
next
  assume r: "0 < nrows t"
  show "fst (print_statistics t w) \<noteq> Raised IndexError"
  proof (cases "has_time t")
    case True
    then show ?thesis by (simp add: print_statistics_report [OF assms r])
  next
    case False
    then show ?thesis by (simp add: print_statistics_no_time [OF assms r])
  qed
qed

theorem report_needs_rows_witness:
  "loaded empty_table \<and> nrows empty_table = 0 \<and>
   print_statistics empty_table example_world =
     (Raised IndexError, empty_table, print_all heading example_world) \<and>
   loaded example_table \<and> 0 < nrows example_table \<and>
   fst (print_statistics example_table example_world) \<noteq> Raised IndexError"
proof -
  have l: "loaded empty_table" by (simp add: loaded_def empty_table_def)
  have z: "nrows empty_table = 0" by (simp add: empty_table_def)
  have s: "\<exists>c\<in>set (cols empty_table). fst c \<noteq> ''TimeStep''" by (simp add: empty_table_def)
  have r: "0 < nrows example_table" by (simp add: example_table_def)
  from report_needs_rows [OF l, of example_world] z s
  have "print_statistics empty_table example_world =
     (Raised IndexError, empty_table, print_all heading example_world)" by blast
  moreover from report_needs_rows [OF example_table_loaded, of example_world] r
  have "fst (print_statistics example_table example_world) \<noteq> Raised IndexError" by blast
  ultimately show ?thesis using l z r example_table_loaded by blast
qed

text \<open>
  Claim C10. The time column is the column whose name is exactly \<^verbatim>\<open>TimeStep\<close>. On a
  loaded table with rows, every column with another name, whatever its spelling, gets a
  species line in the report. With a \<^verbatim>\<open>TimeStep\<close> column both charts are saved: the
  all-populations chart draws every column with another name, and the trophic-levels
  chart picks its series by its three name lists only. Without a \<^verbatim>\<open>TimeStep\<close>
  column, \<^verbatim>\<open>plot_all_populations\<close> ends with the column-lookup error for
  \<^verbatim>\<open>TimeStep\<close> on every table that has a column, and writes no file; so does
  \<^verbatim>\<open>plot_trophic_levels\<close> when a listed column is present. With the column, neither
  raises.
\<close>

theorem time_column_exact_name:
  assumes "loaded t"
  shows "(0 < nrows t \<longrightarrow>
            (\<forall>(name, cs)\<in>set (cols t).
               name \<noteq> ''TimeStep'' \<longrightarrow>
               render_line
                 \<lparr>species = name, initial = hd cs, final = last cs,
                  mean = series_mean cs,
                  maximum = Some (Max (set cs)), minimum = Some (Min (set cs))\<rparr>
               \<in> set (stdout (snd (snd (print_statistics t w)))))) \<and>
         (has_time t \<longrightarrow>
            fst (plot_all_populations t output w) = Returned () \<and>
            chart_labels (snd (snd (plot_all_populations t output w))) output =
              [filter (\<lambda>n. n \<noteq> ''TimeStep'') (columns t)]) \<and>
         (\<not> has_time t \<and> cols t \<noteq> [] \<longrightarrow>
            fst (plot_all_populations t output w) = Raised (KeyError ''TimeStep'') \<and>
            files (snd (snd (plot_all_populations t output w))) = files w) \<and>
         (has_time t \<longrightarrow>
            fst (plot_trophic_levels t output w) = Returned () \<and>
            chart_labels (snd (snd (plot_trophic_levels t output w))) output =
              [filter (\<lambda>n. n \<in> set (columns t)) producers,
               filter (\<lambda>n. n \<in> set (columns t)) herbivores,
               filter (\<lambda>n. n \<in> set (columns t)) predators]) \<and>
         (\<not> has_time t \<and>
          (\<exists>n\<in>set (producers @ herbivores @ predators). n \<in> set (columns t)) \<longrightarrow>
            fst (plot_trophic_levels t output w) = Raised (KeyError ''TimeStep''))"
proof (intro conjI impI)
  assume r: "0 < nrows t"
  show "\<forall>(name, cs)\<in>set (cols t).
               name \<noteq> ''TimeStep'' \<longrightarrow>
               render_line
                 \<lparr>species = name, initial = hd cs, final = last cs,
                  mean = series_mean cs,
                  maximum = Some (Max (set cs)), minimum = Some (Min (set cs))\<rparr>
               \<in> set (stdout (snd (snd (print_statistics t w))))"
  proof (intro ballI)
    fix c assume c: "c \<in> set (cols t)"
    show "case c of (name, cs) \<Rightarrow>
               name \<noteq> ''TimeStep'' \<longrightarrow>
               render_line
                 \<lparr>species = name, initial = hd cs, final = last cs,
                  mean = series_mean cs,
                  maximum = Some (Max (set cs)), minimum = Some (Min (set cs))\<rparr>
               \<in> set (stdout (snd (snd (print_statistics t w))))"
      using summary_printed [OF assms r c, of w] by (cases c) (simp add: summary_def)
  qed
next
  assume h: "has_time t"
  show "fst (plot_all_populations t output w) = Returned ()"
    by (simp add: plot_all_populations_chart [OF h])
  show "chart_labels (snd (snd (plot_all_populations t output w))) output =
              [filter (\<lambda>n. n \<noteq> ''TimeStep'') (columns t)]"
    using h by (rule chart_labels_all)
  show "fst (plot_trophic_levels t output w) = Returned ()"
    by (simp add: plot_trophic_levels_chart [OF h])
  show "chart_labels (snd (snd (plot_trophic_levels t output w))) output =
              [filter (\<lambda>n. n \<in> set (columns t)) producers,
               filter (\<lambda>n. n \<in> set (columns t)) herbivores,
               filter (\<lambda>n. n \<in> set (columns t)) predators]"
    using h by (rule chart_labels_trophic)
next
  assume a: "\<not> has_time t \<and> cols t \<noteq> []"
  then show "fst (plot_all_populations t output w) = Raised (KeyError ''TimeStep'')"
    and "files (snd (snd (plot_all_populations t output w))) = files w"
    by (simp_all add: plot_all_populations_no_time)
next
  assume "\<not> has_time t \<and>
          (\<exists>n\<in>set (producers @ herbivores @ predators). n \<in> set (columns t))"
  then show "fst (plot_trophic_levels t output w) = Raised (KeyError ''TimeStep'')"
    by (intro plot_trophic_levels_no_time) simp_all
qed

theorem time_column_exact_name_witness:
  "loaded misspelt_table \<and> 0 < nrows misspelt_table \<and>
   (''timestep'', [0, 1]) \<in> set (cols misspelt_table) \<and>
   ''timestep             0          1          0.5        1          0         ''
     \<in> set (stdout (snd (snd (print_statistics misspelt_table example_world)))) \<and>
   \<not> has_time misspelt_table \<and> cols misspelt_table \<noteq> [] \<and>
   fst (plot_all_populations misspelt_table ''all.png'' example_world) =
     Raised (KeyError ''TimeStep'') \<and>
   fst (plot_trophic_levels misspelt_table ''all.png'' example_world) =
     Raised (KeyError ''TimeStep'') \<and>
   loaded example_table \<and> has_time example_table \<and>
   fst (plot_all_populations example_table ''all.png'' example_world) = Returned () \<and>
   chart_labels (snd (snd (plot_all_populations example_table ''all.png'' example_world)))
     ''all.png'' = [[''Deer'', ''Wildflowers'', ''Fox'', ''UnknownCritter'']]"
proof -
  have l: "loaded misspelt_table" by (simp add: loaded_def misspelt_table_def)
  have r: "0 < nrows misspelt_table" by (simp add: misspelt_table_def)
  have c: "(''timestep'', [0, 1]) \<in> set (cols misspelt_table)" by (simp add: misspelt_table_def)
  have n: "\<not> has_time misspelt_table" by (simp add: has_time_def columns_def misspelt_table_def)
  have e: "cols misspelt_table \<noteq> []" by (simp add: misspelt_table_def)
  have d: "\<exists>n\<in>set (producers @ herbivores @ predators). n \<in> set (columns misspelt_table)"
    by (simp add: herbivores_def columns_def misspelt_table_def)
  note m = time_column_exact_name [OF l, of example_world "''all.png''"]
  note x = time_column_exact_name [OF example_table_loaded, of example_world "''all.png''"]
  have line: "render_line
     \<lparr>species = ''timestep'', initial = hd [0, 1], final = last [0, 1],
      mean = series_mean [0, 1],
      maximum = Some (Max (set [0, 1])), minimum = Some (Min (set [0, 1]))\<rparr> =
     ''timestep             0          1          0.5        1          0         ''"
    by code_simp
  have "render_line
     \<lparr>species = ''timestep'', initial = hd [0, 1], final = last [0, 1],
      mean = series_mean [0, 1],
      maximum = Some (Max (set [0, 1])), minimum = Some (Min (set [0, 1]))\<rparr>
     \<in> set (stdout (snd (snd (print_statistics misspelt_table example_world))))"
    using m r c by fastforce
  then have 1: "''timestep             0          1          0.5        1          0         ''
     \<in> set (stdout (snd (snd (print_statistics misspelt_table example_world))))"
    unfolding line .
  have 2: "fst (plot_all_populations misspelt_table ''all.png'' example_world) =
     Raised (KeyError ''TimeStep'')"
    using m n e by blast
  have 3: "fst (plot_trophic_levels misspelt_table ''all.png'' example_world) =
     Raised (KeyError ''TimeStep'')"
    using m n d by blast
  have 4: "fst (plot_all_populations example_table ''all.png'' example_world) = Returned ()"
    using x example_table_has_time by blast
  have "chart_labels (snd (snd (plot_all_populations example_table ''all.png'' example_world)))
     ''all.png'' = [filter (\<lambda>n. n \<noteq> ''TimeStep'') (columns example_table)]"
    using x example_table_has_time by blast
  then have 5: "chart_labels (snd (snd (plot_all_populations example_table ''all.png'' example_world)))
     ''all.png'' = [[''Deer'', ''Wildflowers'', ''Fox'', ''UnknownCritter'']]"
    by (simp add: columns_def example_table_def)
  show ?thesis
    by (intro conjI l r c 1 n e 2 3 example_table_loaded example_table_has_time 4 5)
qed

end
